theory Spec2Isabelle
  imports Complex_Main "HOL-Library.Word" "HOL-Library.Signed_Division" "HOL-Library.Log_Nat"
begin

section \<open>Data model of the enclosure controller (main.cpp)\<close>

text \<open>
  The firmware is one Arduino sketch: global variables, \<open>setup()\<close> and \<open>loop()\<close>.
  The globals become one record, \<open>loop()\<close> becomes a function from the values the hardware
  hands to one pass (sensor readings, PID results, encoder count, pin levels, clock) and the
  state before the pass to the state after it. \<open>unsigned long\<close> is 32 bits on the ESP32, so
  the clock and the timer fields are \<open>32 word\<close>; \<open>float\<close> and \<open>double\<close> temperatures are
  read as real numbers (only comparisons and copies are made with them; a NaN reading,
  which satisfies no comparison, has no counterpart here).
\<close>

type_synonym u32 = "32 word"

text \<open>What the sketch sends to the display, the buzzer pin and the serial port, in order.\<close>

datatype frame =
    OverheatFrame
  | BlankFrame
  | HighHumidityFrame string
  | ZoneFrame string real real bool
  | HeaterFrame bool

datatype event =
    BuzzerLow
  | BuzzerHigh
  | Delay nat
  | SerialLine string
  | SendBuffer frame

text \<open>\<open>struct Zone\<close>. The \<open>PID *pid\<close> member is only configured in \<open>setup()\<close> and never
  asked to compute, so it carries no state of interest and is left out. The member \<open>output\<close> is
  named \<open>output_pid\<close> here (\<open>output\<close> is reserved in Isabelle).\<close>

record Zone =
  name :: string
  currentTemp :: real
  targetTemp :: real
  timerSeconds :: u32
  timerStart :: u32
  heaterOn :: bool
  useTimer :: bool
  manualStart :: u32
  heaterPin :: int
  input :: real
  output_pid :: real
  setpoint :: real

text \<open>The EEPROM as the sketch uses it: an \<open>int\<close> at each of 0, 4, 8, 12 and a \<open>bool\<close> at each
  of 16, 17, 18, 19. The ranges never overlap, so the store is a map from the address of a
  \<open>put\<close> to the value put there.\<close>

datatype cell = IntCell int | BoolCell bool

text \<open>The globals of the sketch, followed by the hardware it drives: the duty last written to
  the two LEDC channels, the EEPROM contents and the trace of output events.\<close>

record state =
  lastEncoderPos :: int
  encoderButtonPressed :: bool
  backButtonPressed :: bool
  autoShutoffEnabled :: bool
  beepOnPush :: bool
  screenIndex :: int
  mainMenuIndex :: int
  settingsMenuIndex :: int
  filamentTemp :: real
  filamentTemp2 :: real
  humidityLimitF1 :: int
  humidityAlarmF1 :: bool
  humidityLimitF2 :: int
  humidityAlarmF2 :: bool
  enclosure1 :: Zone
  humidityLimit1 :: int
  humidityAlarm1 :: bool
  enclosure2 :: Zone
  humidityLimit2 :: int
  humidityAlarm2 :: bool
  tuning :: bool
  lastInteraction :: u32
  buzzerLocked :: bool
  ledc1 :: u32
  ledc2 :: u32
  eeprom :: "nat \<Rightarrow> cell option"
  trace :: "event list"

text \<open>What one pass of \<open>loop()\<close> reads from outside. A sensor field is \<open>None\<close> when
  \<open>sensor.begin()\<close> fails on that multiplexer channel. \<open>step1\<close> and \<open>step2\<close> stand for
  \<open>fastPID1.step\<close> and \<open>fastPID2.step\<close> of the FastPID library (result type \<open>int16_t\<close>),
  which keeps its own integral state and is not part of the sketch. The switch and the back
  button are sampled once per pass (\<open>True\<close> is the pressed level \<open>LOW\<close>). Each call of
  \<open>millis()\<close> has its own field, since the blocking delays between the calls let the clock move.\<close>

record cycle_in =
  sensorFilament1 :: "real option"
  sensorFilament2 :: "real option"
  sensorEnclosure1 :: "real option"
  sensorEnclosure2 :: "real option"
  step1 :: "real \<Rightarrow> real \<Rightarrow> 16 word"
  step2 :: "real \<Rightarrow> real \<Rightarrow> 16 word"
  encoderRead :: int
  encoderSwLow :: bool
  backButtonLow :: bool
  humidityRead :: "real option"
  millisNav :: u32
  millisArm :: u32
  millisTimer1 :: u32
  millisTimer2 :: u32

definition MAX_MANUAL_RUNTIME_SECONDS :: nat where
  "MAX_MANUAL_RUNTIME_SECONDS = 201600"

definition emit :: "event list \<Rightarrow> state \<Rightarrow> state" where
  "emit es s = s\<lparr>trace := trace s @ es\<rparr>"

section \<open>Sensor ingest (loop, lines 313-329)\<close>

definition ingest :: "real option \<Rightarrow> real \<Rightarrow> real" where
  "ingest r old = (case r of Some t \<Rightarrow> t | None \<Rightarrow> old)"

definition readSensors :: "cycle_in \<Rightarrow> state \<Rightarrow> state" where
  "readSensors i s =
     s\<lparr>filamentTemp := ingest (sensorFilament1 i) (filamentTemp s),
       filamentTemp2 := ingest (sensorFilament2 i) (filamentTemp2 s),
       enclosure1 := (enclosure1 s)\<lparr>currentTemp :=
          ingest (sensorEnclosure1 i) (currentTemp (enclosure1 s))\<rparr>,
       enclosure2 := (enclosure2 s)\<lparr>currentTemp :=
          ingest (sensorEnclosure2 i) (currentTemp (enclosure2 s))\<rparr>\<rparr>"

section \<open>PID control and overheat failsafe (loop, lines 331-381)\<close>

definition overheatFlash :: "event list" where
  "overheatFlash = [SendBuffer OverheatFrame, Delay 500, SendBuffer BlankFrame, Delay 300]"

definition overheatBuzz :: "event list" where
  "overheatBuzz = [BuzzerLow, Delay 300, BuzzerHigh, Delay 200]"

definition overheat :: "state \<Rightarrow> bool" where
  "overheat s \<longleftrightarrow>
     currentTemp (enclosure1 s) \<ge> 130 \<or> currentTemp (enclosure2 s) \<ge> 130"

text \<open>The \<open>if\<close> branch. The dash of the serial message is written in ASCII.\<close>

definition overheatShutdown :: "state \<Rightarrow> state" where
  "overheatShutdown s =
     (let s1 = emit [SerialLine ''!! OVERHEAT DETECTED - SYSTEM SHUTDOWN !!''] s;
          s2 = s1\<lparr>enclosure1 := (enclosure1 s1)\<lparr>heaterOn := False\<rparr>,
                  enclosure2 := (enclosure2 s1)\<lparr>heaterOn := False\<rparr>,
                  ledc1 := 0, ledc2 := 0\<rparr>;
          s3 = emit (concat (replicate 3 overheatFlash)) s2;
          s4 = emit (concat (replicate 10 overheatBuzz)) s3
      in s4\<lparr>buzzerLocked := True\<rparr>)"

text \<open>The \<open>else\<close> branch: \<open>output = fastPID.step(input, setpoint)\<close> stores the \<open>int16_t\<close> result
  in a \<open>double\<close>; \<open>ledcWrite(ch, (int)output)\<close> converts it back to \<open>int\<close> and then to the
  \<open>uint32_t\<close> duty parameter, which is the sign extension of the 16-bit result.\<close>

definition pidStep :: "cycle_in \<Rightarrow> state \<Rightarrow> state" where
  "pidStep i s =
     (let z1 = (enclosure1 s)\<lparr>input := currentTemp (enclosure1 s)\<rparr>;
          o1 = step1 i (input z1) (setpoint z1);
          z1' = z1\<lparr>output_pid := real_of_int (sint o1), heaterOn := True\<rparr>;
          z2 = (enclosure2 s)\<lparr>input := currentTemp (enclosure2 s)\<rparr>;
          o2 = step2 i (input z2) (setpoint z2);
          z2' = z2\<lparr>output_pid := real_of_int (sint o2), heaterOn := True\<rparr>
      in s\<lparr>enclosure1 := z1', enclosure2 := z2',
            ledc1 := word_of_int (sint o1), ledc2 := word_of_int (sint o2)\<rparr>)"

definition pidControl :: "cycle_in \<Rightarrow> state \<Rightarrow> state" where
  "pidControl i s =
     (if \<not> tuning s then
        (let s1 = s\<lparr>enclosure1 := (enclosure1 s)\<lparr>input := currentTemp (enclosure1 s)\<rparr>,
                    enclosure2 := (enclosure2 s)\<lparr>input := currentTemp (enclosure2 s)\<rparr>\<rparr>
         in if overheat s1 then overheatShutdown s1 else pidStep i s1)
      else s)"

section \<open>Encoder navigation (loop, lines 383-393)\<close>

text \<open>\<open>encoder.read() / 4\<close> is C++ division, which truncates towards zero (\<open>sdiv\<close>).\<close>

definition encoderNav :: "cycle_in \<Rightarrow> state \<Rightarrow> state" where
  "encoderNav i s =
     (let newPos = encoderRead i sdiv 4 in
      if newPos \<noteq> lastEncoderPos s then
        (let s1 = s\<lparr>lastEncoderPos := newPos, lastInteraction := millisNav i\<rparr> in
         if screenIndex s1 = 100 then s1\<lparr>mainMenuIndex := \<bar>newPos\<bar> mod 7\<rparr>
         else if screenIndex s1 = 99 then s1\<lparr>settingsMenuIndex := \<bar>newPos\<bar> mod 4\<rparr>
         else s1)
      else s)"

section \<open>displayZone (lines 179-223)\<close>

text \<open>\<open>z.name.indexOf("1") >= 0\<close>: the name contains the character.\<close>

definition nameHas :: "char \<Rightarrow> Zone \<Rightarrow> bool" where
  "nameHas c z \<longleftrightarrow> c \<in> set (name z)"

text \<open>\<open>hum > humidityLimit1\<close> compares a \<open>float\<close> with an \<open>int\<close>: C++ converts the \<open>int\<close> to
  \<open>float\<close> first. The conversion is exact below \<open>2 ^ 24\<close> in magnitude; above, the value
  is rounded to 24 significant bits, to nearest, ties to the even significand
  (a 32-bit \<open>int\<close> never leaves the exponent range of \<open>float\<close>).\<close>

definition toFloat :: "int \<Rightarrow> real" where
  "toFloat n =
     (let a = \<bar>n\<bar> in
      if a < 2 ^ 24 then real_of_int n
      else
        (let e = nat (bitlen a) - 24;
             q = a div 2 ^ e;
             r = a mod 2 ^ e;
             h = 2 ^ (e - 1);
             q' = (if r > h \<or> (r = h \<and> odd q) then q + 1 else q)
         in real_of_int (sgn n * q' * 2 ^ e)))"

definition highHumidity :: "Zone \<Rightarrow> real \<Rightarrow> state \<Rightarrow> bool" where
  "highHumidity z hum s \<longleftrightarrow>
     (nameHas CHR ''1'' z \<and> hum > toFloat (humidityLimit1 s) \<and> humidityAlarm1 s) \<or>
     (nameHas CHR ''2'' z \<and> hum > toFloat (humidityLimit2 s) \<and> humidityAlarm2 s)"

definition humidityInterstitial :: "Zone \<Rightarrow> event list" where
  "humidityInterstitial z =
     [SendBuffer (HighHumidityFrame (name z)), Delay 500, SendBuffer BlankFrame, Delay 300]"

text \<open>The events of one call; \<open>r\<close> is the humidity sensor of the zone's channel
  (\<open>hum\<close> stays 0 when \<open>sensor.begin()\<close> fails).\<close>

definition displayZoneEvents :: "Zone \<Rightarrow> real option \<Rightarrow> state \<Rightarrow> event list" where
  "displayZoneEvents z r s =
     (let hum = (case r of Some h \<Rightarrow> h | None \<Rightarrow> 0) in
      if highHumidity z hum s
      then humidityInterstitial z @ [SendBuffer (HeaterFrame (heaterOn z))]
      else [SendBuffer (ZoneFrame (name z) (currentTemp z) hum (heaterOn z))])"

definition displayZone :: "Zone \<Rightarrow> real option \<Rightarrow> state \<Rightarrow> state" where
  "displayZone z r s = emit (displayZoneEvents z r s) s"

section \<open>Encoder button (loop, lines 395-534)\<close>

definition eepromPut :: "nat \<Rightarrow> cell \<Rightarrow> state \<Rightarrow> state" where
  "eepromPut a v s = s\<lparr>eeprom := (eeprom s)(a \<mapsto> v)\<rparr>"

definition pressMainMenu :: "state \<Rightarrow> state" where
  "pressMainMenu s =
     (if mainMenuIndex s = 0 then s\<lparr>screenIndex := 10\<rparr>
      else if mainMenuIndex s = 1 then s\<lparr>screenIndex := 11\<rparr>
      else if mainMenuIndex s = 2 then s\<lparr>screenIndex := 12\<rparr>
      else if mainMenuIndex s = 3 then s\<lparr>screenIndex := 13\<rparr>
      else if mainMenuIndex s = 4 then s\<lparr>screenIndex := 3\<rparr>
      else if mainMenuIndex s = 5 then s\<lparr>ledc1 := 0, ledc2 := 0\<rparr>
      else if mainMenuIndex s = 6 then s\<lparr>screenIndex := 99\<rparr>
      else s)"

text \<open>\<open>lastEncoderPos % n\<close> is the C++ remainder (\<open>smod\<close>): negative for a negative
  position, where no \<open>case\<close> of the \<open>switch\<close> matches.\<close>

definition pressFilament1 :: "state \<Rightarrow> state" where
  "pressFilament1 s =
     (let k = lastEncoderPos s smod 2 in
      if k = 0 then s\<lparr>screenIndex := 26\<rparr>
      else if k = 1 then
        (let s1 = s\<lparr>humidityAlarmF1 := \<not> humidityAlarmF1 s\<rparr>
         in eepromPut 18 (BoolCell (humidityAlarmF1 s1)) s1)
      else s)"

definition pressFilament2 :: "state \<Rightarrow> state" where
  "pressFilament2 s =
     (let k = lastEncoderPos s smod 2 in
      if k = 0 then s\<lparr>screenIndex := 36\<rparr>
      else if k = 1 then
        (let s1 = s\<lparr>humidityAlarmF2 := \<not> humidityAlarmF2 s\<rparr>
         in eepromPut 19 (BoolCell (humidityAlarmF2 s1)) s1)
      else s)"

definition pressEnclosure1 :: "cycle_in \<Rightarrow> state \<Rightarrow> state" where
  "pressEnclosure1 i s =
     (let k = lastEncoderPos s smod 6 in
      if k = 0 then s\<lparr>screenIndex := 24\<rparr>
      else if k = 1 then
        s\<lparr>enclosure1 := (enclosure1 s)\<lparr>useTimer := \<not> useTimer (enclosure1 s)\<rparr>\<rparr>
      else if k = 2 then s\<lparr>screenIndex := 20\<rparr>
      else if k = 3 then
        (let s1 = s\<lparr>screenIndex := 10\<rparr>
         in emit [Delay 1000] (displayZone (enclosure1 s1) (humidityRead i) s1))
      else if k = 4 then s\<lparr>screenIndex := 25\<rparr>
      else if k = 5 then
        (let s1 = s\<lparr>humidityAlarm1 := \<not> humidityAlarm1 s\<rparr>
         in eepromPut 16 (BoolCell (humidityAlarm1 s1)) s1)
      else s)"

definition pressEnclosure2 :: "cycle_in \<Rightarrow> state \<Rightarrow> state" where
  "pressEnclosure2 i s =
     (let k = lastEncoderPos s smod 6 in
      if k = 0 then s\<lparr>screenIndex := 34\<rparr>
      else if k = 1 then
        s\<lparr>enclosure2 := (enclosure2 s)\<lparr>useTimer := \<not> useTimer (enclosure2 s)\<rparr>\<rparr>
      else if k = 2 then s\<lparr>screenIndex := 30\<rparr>
      else if k = 3 then
        (let s1 = s\<lparr>screenIndex := 11\<rparr>
         in emit [Delay 1000] (displayZone (enclosure2 s1) (humidityRead i) s1))
      else if k = 4 then s\<lparr>screenIndex := 35\<rparr>
      else if k = 5 then
        (let s1 = s\<lparr>humidityAlarm2 := \<not> humidityAlarm2 s\<rparr>
         in eepromPut 17 (BoolCell (humidityAlarm2 s1)) s1)
      else s)"

definition tuningNotice :: string where
  "tuningNotice = ''FastPID tuning is not dynamic - settings are applied statically.''"

definition pressSettings :: "state \<Rightarrow> state" where
  "pressSettings s =
     (if settingsMenuIndex s = 0 \<and> \<not> tuning s then emit [SerialLine tuningNotice] s
      else if settingsMenuIndex s = 1 \<and> \<not> tuning s then emit [SerialLine tuningNotice] s
      else if settingsMenuIndex s = 2 then s\<lparr>autoShutoffEnabled := \<not> autoShutoffEnabled s\<rparr>
      else if settingsMenuIndex s = 3 then s\<lparr>beepOnPush := \<not> beepOnPush s\<rparr>
      else s)"

definition encoderButton :: "cycle_in \<Rightarrow> state \<Rightarrow> state" where
  "encoderButton i s =
     (if encoderSwLow i \<and> \<not> encoderButtonPressed s then
        (let s1 = (if beepOnPush s then emit [BuzzerLow, Delay 20, BuzzerHigh] s else s);
             s2 = s1\<lparr>encoderButtonPressed := True\<rparr>
         in if screenIndex s2 = 100 then pressMainMenu s2
            else if screenIndex s2 = 12 then pressFilament1 s2
            else if screenIndex s2 = 13 then pressFilament2 s2
            else if screenIndex s2 = 10 then pressEnclosure1 i s2
            else if screenIndex s2 = 11 then pressEnclosure2 i s2
            else if screenIndex s2 = 99 then pressSettings s2
            else s2)
      else if \<not> encoderSwLow i then s\<lparr>encoderButtonPressed := False\<rparr>
      else s)"

section \<open>Back button (loop, lines 536-542)\<close>

definition backButton :: "cycle_in \<Rightarrow> state \<Rightarrow> state" where
  "backButton i s =
     (if backButtonLow i \<and> \<not> backButtonPressed s
      then s\<lparr>backButtonPressed := True, screenIndex := 100\<rparr>
      else if \<not> backButtonLow i then s\<lparr>backButtonPressed := False\<rparr>
      else s)"

section \<open>The screen switch (loop, lines 544-757)\<close>

text \<open>The \<open>switch (screenIndex)\<close> under "Update screen". The list screens (100, 99, 10 to 14)
  and the countdown screens (23, 33) only draw, which changes no variable; the drawing
  itself is not modelled. The value screens assign the value they draw.\<close>

definition humidityChoice :: "state \<Rightarrow> int" where
  "humidityChoice s = 30 + \<bar>lastEncoderPos s\<bar> mod 70"

definition tempChoice :: "state \<Rightarrow> int" where
  "tempChoice s = 70 + \<bar>lastEncoderPos s\<bar> mod 51"

definition timerChoice :: "state \<Rightarrow> u32" where
  "timerChoice s = word_of_int (max (\<bar>lastEncoderPos s\<bar> mod 289) 2 * 600)"

definition screenSwitch :: "cycle_in \<Rightarrow> state \<Rightarrow> state" where
  "screenSwitch i s =
     (if screenIndex s = 26 then
        eepromPut 8 (IntCell (humidityChoice s)) (s\<lparr>humidityLimitF1 := humidityChoice s\<rparr>)
      else if screenIndex s = 36 then
        eepromPut 12 (IntCell (humidityChoice s)) (s\<lparr>humidityLimitF2 := humidityChoice s\<rparr>)
      else if screenIndex s = 24 then
        s\<lparr>enclosure1 := (enclosure1 s)\<lparr>setpoint := real_of_int (tempChoice s)\<rparr>\<rparr>
      else if screenIndex s = 34 then
        s\<lparr>enclosure2 := (enclosure2 s)\<lparr>setpoint := real_of_int (tempChoice s)\<rparr>\<rparr>
      else if screenIndex s = 25 then
        eepromPut 0 (IntCell (humidityChoice s)) (s\<lparr>humidityLimit1 := humidityChoice s\<rparr>)
      else if screenIndex s = 35 then
        eepromPut 4 (IntCell (humidityChoice s)) (s\<lparr>humidityLimit2 := humidityChoice s\<rparr>)
      else if screenIndex s = 20 then
        s\<lparr>screenIndex := 21,
          enclosure1 := (enclosure1 s)\<lparr>useTimer := \<not> useTimer (enclosure1 s)\<rparr>\<rparr>
      else if screenIndex s = 21 then
        s\<lparr>enclosure1 := (enclosure1 s)\<lparr>timerSeconds := timerChoice s\<rparr>\<rparr>
      else if screenIndex s = 22 then
        s\<lparr>enclosure1 := (enclosure1 s)\<lparr>timerStart := millisArm i, heaterOn := True\<rparr>,
          screenIndex := 23\<rparr>
      else if screenIndex s = 30 then
        s\<lparr>screenIndex := 31,
          enclosure2 := (enclosure2 s)\<lparr>useTimer := \<not> useTimer (enclosure2 s)\<rparr>\<rparr>
      else if screenIndex s = 31 then
        s\<lparr>enclosure2 := (enclosure2 s)\<lparr>timerSeconds := timerChoice s\<rparr>\<rparr>
      else if screenIndex s = 32 then
        s\<lparr>enclosure2 := (enclosure2 s)\<lparr>timerStart := millisArm i, heaterOn := True\<rparr>,
          screenIndex := 33\<rparr>
      else s)"

section \<open>Timer check (loop, lines 759-824)\<close>

definition fiveMinuteBeep :: "event list" where
  "fiveMinuteBeep = [BuzzerLow, Delay 500, BuzzerHigh]"

definition shortBeep :: "event list" where
  "shortBeep = [BuzzerLow, Delay 150, BuzzerHigh, Delay 150]"

definition countdownSequence :: "event list" where
  "countdownSequence =
     concat (replicate 4 shortBeep) @ [Delay 500, BuzzerLow, Delay 1000, BuzzerHigh]"

definition elapsedSeconds :: "u32 \<Rightarrow> Zone \<Rightarrow> u32" where
  "elapsedSeconds now z = (now - timerStart z) div 1000"

definition remainingSeconds :: "u32 \<Rightarrow> Zone \<Rightarrow> u32" where
  "remainingSeconds now z = timerSeconds z - elapsedSeconds now z"

text \<open>The two blocks of the sketch are the same text, one on \<open>enclosure1\<close> and channel 0, one
  on \<open>enclosure2\<close> and channel 1. The block is written once, on what it touches: the zone,
  the duty of its channel, the shared flag \<open>buzzerLocked\<close>; it returns them with the events
  it produced. \<open>now\<close> is the value of \<open>millis()\<close>; all arithmetic is \<open>unsigned long\<close>.\<close>

definition timerCheck ::
    "u32 \<Rightarrow> Zone \<times> u32 \<times> bool \<Rightarrow> (Zone \<times> u32 \<times> bool) \<times> event list" where
  "timerCheck now st =
     (case st of (z, duty, locked) \<Rightarrow>
      if useTimer z \<and> heaterOn z then
        (let elapsed = elapsedSeconds now z;
             remaining = timerSeconds z - elapsed;
             es1 = (if remaining = 300 \<and> \<not> locked then fiveMinuteBeep else []);
             fire = (remaining \<le> 30 \<and> remaining > 0 \<and> \<not> locked);
             es2 = (if fire then countdownSequence else []);
             locked2 = (if fire then True else locked)
         in if elapsed \<ge> timerSeconds z
            then ((z\<lparr>heaterOn := False\<rparr>, 0, False), es1 @ es2)
            else ((z, duty, locked2), es1 @ es2))
      else ((z, duty, locked), []))"

definition timerCheck1 :: "cycle_in \<Rightarrow> state \<Rightarrow> state" where
  "timerCheck1 i s =
     (case timerCheck (millisTimer1 i) (enclosure1 s, ledc1 s, buzzerLocked s) of
        ((z, duty, locked), es) \<Rightarrow>
          emit es (s\<lparr>enclosure1 := z, ledc1 := duty, buzzerLocked := locked\<rparr>))"

definition timerCheck2 :: "cycle_in \<Rightarrow> state \<Rightarrow> state" where
  "timerCheck2 i s =
     (case timerCheck (millisTimer2 i) (enclosure2 s, ledc2 s, buzzerLocked s) of
        ((z, duty, locked), es) \<Rightarrow>
          emit es (s\<lparr>enclosure2 := z, ledc2 := duty, buzzerLocked := locked\<rparr>))"

section \<open>One pass of loop() and the runs of the firmware\<close>

text \<open>Modelled from the spec: \<open>updateScreen()\<close> is declared in main.cpp and called at the end
  of \<open>loop()\<close>, but its body is not in the sources. The spec's display renderer
  "renders a read-only state snapshot", so the call leaves every variable as it is.\<close>

definition updateScreen :: "state \<Rightarrow> state" where
  "updateScreen s = s"

definition controlPhase :: "cycle_in \<Rightarrow> state \<Rightarrow> state" where
  "controlPhase i s = pidControl i (readSensors i s)"

definition menuPhase :: "cycle_in \<Rightarrow> state \<Rightarrow> state" where
  "menuPhase i s = screenSwitch i (backButton i (encoderButton i (encoderNav i s)))"

definition timerPhase :: "cycle_in \<Rightarrow> state \<Rightarrow> state" where
  "timerPhase i s = timerCheck2 i (timerCheck1 i s)"

definition loop :: "cycle_in \<Rightarrow> state \<Rightarrow> state" where
  "loop i s = emit [Delay 500] (updateScreen (timerPhase i (menuPhase i (controlPhase i s))))"

text \<open>\<open>setup()\<close> (named \<open>setupState\<close> here, \<open>setup\<close> being reserved in Isabelle): the
  globals with their initialisers, the eight settings as
  \<open>EEPROM.get\<close> returned them, the buzzer pin driven high, \<open>lastInteraction = millis()\<close>.\<close>

record boot_in =
  gotLimit1 :: int
  gotLimit2 :: int
  gotLimitF1 :: int
  gotLimitF2 :: int
  gotAlarm1 :: bool
  gotAlarm2 :: bool
  gotAlarmF1 :: bool
  gotAlarmF2 :: bool
  eepromAtBoot :: "nat \<Rightarrow> cell option"
  millisBoot :: u32

definition zoneInit :: "string \<Rightarrow> int \<Rightarrow> Zone" where
  "zoneInit n pin =
     \<lparr>name = n, currentTemp = 0, targetTemp = 90, timerSeconds = 0, timerStart = 0,
      heaterOn = False, useTimer = True, manualStart = 0, heaterPin = pin,
      input = 0, output_pid = 0, setpoint = 90\<rparr>"

definition setupState :: "boot_in \<Rightarrow> state" where
  "setupState b =
     \<lparr>lastEncoderPos = 0, encoderButtonPressed = False, backButtonPressed = False,
      autoShutoffEnabled = True, beepOnPush = True, screenIndex = 100,
      mainMenuIndex = 0, settingsMenuIndex = 0, filamentTemp = 0, filamentTemp2 = 0,
      humidityLimitF1 = gotLimitF1 b, humidityAlarmF1 = gotAlarmF1 b,
      humidityLimitF2 = gotLimitF2 b, humidityAlarmF2 = gotAlarmF2 b,
      enclosure1 = zoneInit ''3D Enclosure 1'' 12,
      humidityLimit1 = gotLimit1 b, humidityAlarm1 = gotAlarm1 b,
      enclosure2 = zoneInit ''3D Enclosure 2'' 13,
      humidityLimit2 = gotLimit2 b, humidityAlarm2 = gotAlarm2 b,
      tuning = False, lastInteraction = millisBoot b, buzzerLocked = False,
      ledc1 = 0, ledc2 = 0, eeprom = eepromAtBoot b,
      trace = [BuzzerHigh, SerialLine ''System initialized.'']\<rparr>"

text \<open>The states the firmware can be in at the start of a pass: the state after \<open>setup()\<close>,
  and the state after a pass from such a state, whatever the hardware hands to it.\<close>

inductive reachable :: "state \<Rightarrow> bool" where
  boot: "reachable (setupState b)"
| pass: "reachable s \<Longrightarrow> reachable (loop i s)"

text \<open>A run: the passes of \<open>loop()\<close> on a list of inputs, one after the other.\<close>

fun run :: "cycle_in list \<Rightarrow> state \<Rightarrow> state" where
  "run [] s = s"
| "run (i # rest) s = run rest (loop i s)"

text \<open>Concrete inputs for the examples: a boot with the default settings in the EEPROM, and
  a quiet pass (every sensor answers 75 degrees, both PID steps return 200, nothing is
  pressed or turned, the clock reads 1000 ms).\<close>

definition bootDefault :: boot_in where
  "bootDefault =
     \<lparr>gotLimit1 = 65, gotLimit2 = 65, gotLimitF1 = 65, gotLimitF2 = 65,
      gotAlarm1 = False, gotAlarm2 = False, gotAlarmF1 = False, gotAlarmF2 = False,
      eepromAtBoot = (\<lambda>a. None), millisBoot = 0\<rparr>"

definition quiet :: cycle_in where
  "quiet =
     \<lparr>sensorFilament1 = Some 75, sensorFilament2 = Some 75,
      sensorEnclosure1 = Some 75, sensorEnclosure2 = Some 75,
      step1 = (\<lambda>fb sp. 200), step2 = (\<lambda>fb sp. 200),
      encoderRead = 0, encoderSwLow = False, backButtonLow = False,
      humidityRead = Some 40,
      millisNav = 1000, millisArm = 1000, millisTimer1 = 1000, millisTimer2 = 1000\<rparr>"

text \<open>Variations of the quiet pass: the encoder switch held down, the encoder count at
  \<open>n\<close>, the clock at \<open>t\<close> milliseconds.\<close>

definition press :: "cycle_in \<Rightarrow> cycle_in" where
  "press i = i\<lparr>encoderSwLow := True\<rparr>"

definition turned :: "int \<Rightarrow> cycle_in \<Rightarrow> cycle_in" where
  "turned n i = i\<lparr>encoderRead := n\<rparr>"

definition atTime :: "u32 \<Rightarrow> cycle_in \<Rightarrow> cycle_in" where
  "atTime t i = i\<lparr>millisNav := t, millisArm := t, millisTimer1 := t, millisTimer2 := t\<rparr>"

text \<open>Two more: the sensor of enclosure 1 reads 135 degrees; the sensor of enclosure 1 does
  not answer while the PID step of enclosure 1 returns 120.\<close>

definition overheated :: "cycle_in \<Rightarrow> cycle_in" where
  "overheated i = i\<lparr>sensorEnclosure1 := Some 135\<rparr>"

definition sensorless :: "cycle_in \<Rightarrow> cycle_in" where
  "sensorless i = i\<lparr>sensorEnclosure1 := None, step1 := (\<lambda>fb sp. 120)\<rparr>"

text \<open>Three sessions at the menu, from boot.
  \<open>toManual\<close>: press on "3D Enclosure 1", turn to "Toggle Mode", press: enclosure 1 is in
  manual mode.
  \<open>armRun\<close>: press on "3D Enclosure 1", turn to "Set Timer", press (the screen switch toggles
  the mode and shows the duration screen, which sets 2 * 600 seconds), back, press on
  "3D Enclosure 1", turn to "Toggle Mode", press: enclosure 1 is in timer mode with
  \<open>timerSeconds = 1200\<close>.
  \<open>toHumidityScreen\<close>: press on "3D Enclosure 1", turn to "Set Humidity Alert", press: the
  humidity limit screen of enclosure 1 is shown.\<close>

definition toManual :: "cycle_in list" where
  "toManual = [press quiet, turned 4 quiet, press (turned 4 quiet)]"

definition armRun :: "cycle_in list" where
  "armRun = [press quiet, turned 8 quiet, press (turned 8 quiet), turned 8 quiet,
     (turned 8 quiet)\<lparr>backButtonLow := True\<rparr>, press (turned 8 quiet), turned 4 quiet,
     press (turned 4 quiet)]"

definition toHumidityScreen :: "cycle_in list" where
  "toHumidityScreen = [press quiet, turned 16 quiet, press (turned 16 quiet)]"

text \<open>Enclosure 1 as \<open>armRun\<close> leaves it, with the heater switched on by the control step.\<close>

definition armedZone :: Zone where
  "armedZone =
     \<lparr>name = ''3D Enclosure 1'', currentTemp = 75, targetTemp = 90, timerSeconds = 1200,
      timerStart = 0, heaterOn = True, useTimer = True, manualStart = 0, heaterPin = 12,
      input = 75, output_pid = 200, setpoint = 90\<rparr>"

text \<open>The settings that the value screens adjust, and the screens themselves.\<close>

definition settings ::
    "state \<Rightarrow> (real \<times> real) \<times> (u32 \<times> u32) \<times> (int \<times> int \<times> int \<times> int) \<times> (nat \<Rightarrow> cell option)" where
  "settings s =
     ((setpoint (enclosure1 s), setpoint (enclosure2 s)),
      (timerSeconds (enclosure1 s), timerSeconds (enclosure2 s)),
      (humidityLimit1 s, humidityLimit2 s, humidityLimitF1 s, humidityLimitF2 s),
      eeprom s)"

definition valueScreen :: "int \<Rightarrow> bool" where
  "valueScreen k \<longleftrightarrow> k \<in> {24, 34, 25, 35, 26, 36, 21, 31}"

text \<open>How many times the high-humidity interstitial of the zone named \<open>n\<close> has been sent
  to the display so far; whether an event is such an interstitial, of any name.\<close>

definition interstitials :: "string \<Rightarrow> state \<Rightarrow> nat" where
  "interstitials n s = count_list (trace s) (SendBuffer (HighHumidityFrame n))"

definition isInterstitial :: "event \<Rightarrow> bool" where
  "isInterstitial e = (case e of SendBuffer (HighHumidityFrame n) \<Rightarrow> True | _ \<Rightarrow> False)"

text \<open>"View Temp" is pressed in this pass: a press edge of the encoder switch on the
  submenu screen \<open>k\<close> (10 for enclosure 1, 11 for enclosure 2) with the encoder on entry 3.\<close>

definition viewTemp :: "int \<Rightarrow> cycle_in \<Rightarrow> state \<Rightarrow> bool" where
  "viewTemp k i s \<longleftrightarrow>
     encoderSwLow i \<and> \<not> encoderButtonPressed s \<and> screenIndex s = k \<and>
     (encoderRead i sdiv 4) smod 6 = 3"

text \<open>For the humidity examples: a boot that finds the alarms of enclosure 1 and of filament
  box 1 enabled (limits 65), passes in which the humidity sensor answers 70, a session
  that opens the submenu of filament box 1 and stays there, and a session that opens the
  submenu of enclosure 1 and turns to "View Temp".\<close>

definition bootHumid :: boot_in where
  "bootHumid = bootDefault\<lparr>gotAlarm1 := True, gotAlarmF1 := True\<rparr>"

definition humid :: "cycle_in \<Rightarrow> cycle_in" where
  "humid i = i\<lparr>humidityRead := Some 70\<rparr>"

definition toFilament1 :: "cycle_in list" where
  "toFilament1 =
     [atTime 2000 (turned 8 (humid quiet)), atTime 3000 (press (turned 8 (humid quiet))),
      atTime 4000 (turned 8 (humid quiet)), atTime 5000 (turned 8 (humid quiet))]"

definition toViewTemp :: "cycle_in list" where
  "toViewTemp = [atTime 1000 (press (humid quiet)), atTime 2000 (turned 12 (humid quiet))]"

definition buzzerUsed :: "event list \<Rightarrow> bool" where
  "buzzerUsed es \<longleftrightarrow> BuzzerLow \<in> set es \<or> BuzzerHigh \<in> set es"

text \<open>The part of the state that the menu handling (encoder, buttons, screen switch) leaves
  alone on every screen the menu can reach: used to carry facts across a pass.\<close>

definition ctl :: "state \<Rightarrow> bool \<times> bool \<times> (bool \<times> real \<times> string \<times> u32) \<times> (bool \<times> real \<times> string \<times> u32)" where
  "ctl s = (tuning s, buzzerLocked s,
     (heaterOn (enclosure1 s), currentTemp (enclosure1 s), name (enclosure1 s),
      timerStart (enclosure1 s)),
     (heaterOn (enclosure2 s), currentTemp (enclosure2 s), name (enclosure2 s),
      timerStart (enclosure2 s)))"

text \<open>The two screens that arm a timer (cases 22 and 32 of the screen switch).\<close>

definition armScreen :: "state \<Rightarrow> bool" where
  "armScreen s \<longleftrightarrow> screenIndex s = 22 \<or> screenIndex s = 32"

section \<open>What the menu handling leaves alone\<close>

lemma ctl_update [simp]:
  "ctl (s\<lparr>encoderButtonPressed := b\<rparr>) = ctl s"
  "ctl (s\<lparr>backButtonPressed := b\<rparr>) = ctl s"
  "ctl (s\<lparr>screenIndex := k\<rparr>) = ctl s"
  "ctl (s\<lparr>ledc1 := d\<rparr>) = ctl s"
  "ctl (s\<lparr>ledc2 := d\<rparr>) = ctl s"
  "ctl (emit es s) = ctl s"
  "ctl (eepromPut a v s) = ctl s"
  by (simp_all add: ctl_def emit_def eepromPut_def)

lemma encoderNav_ctl: "ctl (encoderNav i s) = ctl s"
  by (simp add: ctl_def encoderNav_def Let_def)

lemma pressMainMenu_ctl: "ctl (pressMainMenu s) = ctl s"
  by (simp add: pressMainMenu_def)

lemma pressFilament1_ctl: "ctl (pressFilament1 s) = ctl s"
  by (simp add: ctl_def pressFilament1_def eepromPut_def Let_def)

lemma pressFilament2_ctl: "ctl (pressFilament2 s) = ctl s"
  by (simp add: ctl_def pressFilament2_def eepromPut_def Let_def)

lemma pressEnclosure1_ctl: "ctl (pressEnclosure1 i s) = ctl s"
  by (simp add: ctl_def pressEnclosure1_def eepromPut_def displayZone_def emit_def Let_def)

lemma pressEnclosure2_ctl: "ctl (pressEnclosure2 i s) = ctl s"
  by (simp add: ctl_def pressEnclosure2_def eepromPut_def displayZone_def emit_def Let_def)

lemma pressSettings_ctl: "ctl (pressSettings s) = ctl s"
  by (simp add: ctl_def pressSettings_def emit_def)

lemma encoderButton_ctl: "ctl (encoderButton i s) = ctl s"
  by (simp add: encoderButton_def Let_def pressMainMenu_ctl pressFilament1_ctl
      pressFilament2_ctl pressEnclosure1_ctl pressEnclosure2_ctl pressSettings_ctl)

lemma backButton_ctl: "ctl (backButton i s) = ctl s"
  by (simp add: backButton_def ctl_def)

lemma screenSwitch_ctl:
  "screenIndex s \<noteq> 22 \<Longrightarrow> screenIndex s \<noteq> 32 \<Longrightarrow> ctl (screenSwitch i s) = ctl s"
  by (simp add: screenSwitch_def ctl_def eepromPut_def)

section \<open>The screens the menu can reach\<close>

lemma armScreen_update [simp]:
  "armScreen (s\<lparr>encoderButtonPressed := b\<rparr>) = armScreen s"
  "armScreen (s\<lparr>backButtonPressed := b\<rparr>) = armScreen s"
  "armScreen (emit es s) = armScreen s"
  by (simp_all add: armScreen_def emit_def)

lemma encoderNav_screen: "screenIndex (encoderNav i s) = screenIndex s"
  by (simp add: encoderNav_def Let_def)

lemma pressMainMenu_arm: "\<not> armScreen s \<Longrightarrow> \<not> armScreen (pressMainMenu s)"
  by (simp add: armScreen_def pressMainMenu_def)

lemma pressFilament1_arm: "\<not> armScreen s \<Longrightarrow> \<not> armScreen (pressFilament1 s)"
  by (simp add: armScreen_def pressFilament1_def eepromPut_def Let_def)

lemma pressFilament2_arm: "\<not> armScreen s \<Longrightarrow> \<not> armScreen (pressFilament2 s)"
  by (simp add: armScreen_def pressFilament2_def eepromPut_def Let_def)

lemma pressEnclosure1_arm: "\<not> armScreen s \<Longrightarrow> \<not> armScreen (pressEnclosure1 i s)"
  by (simp add: armScreen_def pressEnclosure1_def eepromPut_def displayZone_def emit_def Let_def)

lemma pressEnclosure2_arm: "\<not> armScreen s \<Longrightarrow> \<not> armScreen (pressEnclosure2 i s)"
  by (simp add: armScreen_def pressEnclosure2_def eepromPut_def displayZone_def emit_def Let_def)

lemma pressSettings_arm: "\<not> armScreen s \<Longrightarrow> \<not> armScreen (pressSettings s)"
  by (simp add: armScreen_def pressSettings_def emit_def)

lemma encoderButton_arm: "\<not> armScreen s \<Longrightarrow> \<not> armScreen (encoderButton i s)"
  by (simp add: encoderButton_def Let_def pressMainMenu_arm pressFilament1_arm
      pressFilament2_arm pressEnclosure1_arm pressEnclosure2_arm pressSettings_arm)

lemma backButton_arm: "\<not> armScreen s \<Longrightarrow> \<not> armScreen (backButton i s)"
  by (simp add: backButton_def armScreen_def)

lemma screenSwitch_arm: "\<not> armScreen s \<Longrightarrow> \<not> armScreen (screenSwitch i s)"
  by (simp add: screenSwitch_def armScreen_def eepromPut_def)

lemma buttons_arm:
  "\<not> armScreen s \<Longrightarrow> \<not> armScreen (backButton i (encoderButton i (encoderNav i s)))"
  by (rule backButton_arm, rule encoderButton_arm) (simp add: armScreen_def encoderNav_screen)

lemma menuPhase_arm: "\<not> armScreen s \<Longrightarrow> \<not> armScreen (menuPhase i s)"
  unfolding menuPhase_def by (rule screenSwitch_arm, rule buttons_arm)

lemma menuPhase_ctl: "\<not> armScreen s \<Longrightarrow> ctl (menuPhase i s) = ctl s"
proof -
  assume a: "\<not> armScreen s"
  let ?b = "backButton i (encoderButton i (encoderNav i s))"
  from a have "\<not> armScreen ?b" by (rule buttons_arm)
  then have "ctl (screenSwitch i ?b) = ctl ?b"
    by (simp add: armScreen_def screenSwitch_ctl)
  then show ?thesis
    by (simp add: menuPhase_def backButton_ctl encoderButton_ctl encoderNav_ctl)
qed

section \<open>Duty written by the menu\<close>

lemma encoderNav_ledc:
  "ledc1 (encoderNav i s) = ledc1 s" "ledc2 (encoderNav i s) = ledc2 s"
  by (simp_all add: encoderNav_def Let_def)

lemma encoderButton_ledc_zero:
  "ledc1 s = 0 \<Longrightarrow> ledc1 (encoderButton i s) = 0"
  "ledc2 s = 0 \<Longrightarrow> ledc2 (encoderButton i s) = 0"
  by (simp_all add: encoderButton_def Let_def pressMainMenu_def pressFilament1_def
      pressFilament2_def pressEnclosure1_def pressEnclosure2_def pressSettings_def
      eepromPut_def displayZone_def emit_def)

lemma backButton_ledc:
  "ledc1 (backButton i s) = ledc1 s" "ledc2 (backButton i s) = ledc2 s"
  by (simp_all add: backButton_def)

lemma screenSwitch_ledc:
  "ledc1 (screenSwitch i s) = ledc1 s" "ledc2 (screenSwitch i s) = ledc2 s"
  by (simp_all add: screenSwitch_def eepromPut_def)

lemma menuPhase_ledc_zero:
  "ledc1 s = 0 \<Longrightarrow> ledc1 (menuPhase i s) = 0"
  "ledc2 s = 0 \<Longrightarrow> ledc2 (menuPhase i s) = 0"
  by (simp_all add: menuPhase_def screenSwitch_ledc backButton_ledc encoderButton_ledc_zero
      encoderNav_ledc)

section \<open>The control phase\<close>

lemma readSensors_keeps:
  "tuning (readSensors i s) = tuning s"
  "screenIndex (readSensors i s) = screenIndex s"
  by (simp_all add: readSensors_def)

lemma pidControl_keeps:
  "tuning (pidControl i s) = tuning s"
  "screenIndex (pidControl i s) = screenIndex s"
  by (simp_all add: pidControl_def overheatShutdown_def pidStep_def emit_def Let_def)

lemma controlPhase_keeps:
  "tuning (controlPhase i s) = tuning s"
  "armScreen (controlPhase i s) = armScreen s"
  by (simp_all add: controlPhase_def armScreen_def pidControl_keeps readSensors_keeps)

lemma pidControl_overheat:
  assumes "\<not> tuning s" and "overheat s"
  shows "\<not> heaterOn (enclosure1 (pidControl i s))"
    and "\<not> heaterOn (enclosure2 (pidControl i s))"
    and "ledc1 (pidControl i s) = 0"
    and "ledc2 (pidControl i s) = 0"
    and "buzzerLocked (pidControl i s)"
  using assms
  by (simp_all add: pidControl_def overheat_def overheatShutdown_def emit_def Let_def)

lemma pidControl_normal:
  assumes "\<not> tuning s" and "\<not> overheat s"
  shows "heaterOn (enclosure1 (pidControl i s))"
    and "heaterOn (enclosure2 (pidControl i s))"
    and "ledc1 (pidControl i s) =
           word_of_int (sint (step1 i (currentTemp (enclosure1 s)) (setpoint (enclosure1 s))))"
    and "ledc2 (pidControl i s) =
           word_of_int (sint (step2 i (currentTemp (enclosure2 s)) (setpoint (enclosure2 s))))"
  using assms
  by (simp_all add: pidControl_def overheat_def pidStep_def Let_def)

section \<open>The timer phase\<close>

lemma timerCheck_off:
  "\<not> heaterOn z \<Longrightarrow> timerCheck now (z, d, l) = ((z, d, l), [])"
  by (simp add: timerCheck_def)

lemma timerCheck_manual:
  "\<not> useTimer z \<Longrightarrow> timerCheck now (z, d, l) = ((z, d, l), [])"
  by (simp add: timerCheck_def)

lemma timerCheck1_other:
  "enclosure2 (timerCheck1 i s) = enclosure2 s" "ledc2 (timerCheck1 i s) = ledc2 s"
  "tuning (timerCheck1 i s) = tuning s" "screenIndex (timerCheck1 i s) = screenIndex s"
  by (simp_all add: timerCheck1_def emit_def split: prod.splits)

lemma timerCheck2_other:
  "enclosure1 (timerCheck2 i s) = enclosure1 s" "ledc1 (timerCheck2 i s) = ledc1 s"
  "tuning (timerCheck2 i s) = tuning s" "screenIndex (timerCheck2 i s) = screenIndex s"
  by (simp_all add: timerCheck2_def emit_def split: prod.splits)

lemma timerCheck1_off:
  "\<not> heaterOn (enclosure1 s) \<Longrightarrow> enclosure1 (timerCheck1 i s) = enclosure1 s"
  "\<not> heaterOn (enclosure1 s) \<Longrightarrow> ledc1 (timerCheck1 i s) = ledc1 s"
  by (simp_all add: timerCheck1_def timerCheck_off emit_def)

lemma timerCheck2_off:
  "\<not> heaterOn (enclosure2 s) \<Longrightarrow> enclosure2 (timerCheck2 i s) = enclosure2 s"
  "\<not> heaterOn (enclosure2 s) \<Longrightarrow> ledc2 (timerCheck2 i s) = ledc2 s"
  by (simp_all add: timerCheck2_def timerCheck_off emit_def)

lemma timerPhase_keeps:
  "tuning (timerPhase i s) = tuning s"
  "armScreen (timerPhase i s) = armScreen s"
  by (simp_all add: timerPhase_def armScreen_def timerCheck1_other timerCheck2_other)

lemma timerPhase_off:
  assumes "\<not> heaterOn (enclosure1 s)" and "\<not> heaterOn (enclosure2 s)"
  shows "enclosure1 (timerPhase i s) = enclosure1 s"
    and "enclosure2 (timerPhase i s) = enclosure2 s"
    and "ledc1 (timerPhase i s) = ledc1 s"
    and "ledc2 (timerPhase i s) = ledc2 s"
  using assms
  by (simp_all add: timerPhase_def timerCheck1_other timerCheck2_other timerCheck1_off
      timerCheck2_off)

section \<open>Invariants of the runs\<close>

lemma menuPhase_tuning: "tuning (menuPhase i s) = tuning s"
proof -
  have "\<And>t. tuning (screenSwitch i t) = tuning t"
    by (simp add: screenSwitch_def eepromPut_def)
  moreover have "\<And>t. tuning (backButton i t) = tuning t"
    by (simp add: backButton_def)
  moreover have "\<And>t. tuning t = fst (ctl t)"
    by (simp add: ctl_def)
  ultimately show ?thesis
    by (simp add: menuPhase_def encoderButton_ctl encoderNav_ctl)
qed

lemma loop_fields:
  "tuning (loop i s) = tuning (timerPhase i (menuPhase i (controlPhase i s)))"
  "armScreen (loop i s) = armScreen (timerPhase i (menuPhase i (controlPhase i s)))"
  "enclosure1 (loop i s) = enclosure1 (timerPhase i (menuPhase i (controlPhase i s)))"
  "enclosure2 (loop i s) = enclosure2 (timerPhase i (menuPhase i (controlPhase i s)))"
  "ledc1 (loop i s) = ledc1 (timerPhase i (menuPhase i (controlPhase i s)))"
  "ledc2 (loop i s) = ledc2 (timerPhase i (menuPhase i (controlPhase i s)))"
  by (simp_all add: loop_def updateScreen_def emit_def armScreen_def)

lemma loop_tuning: "tuning (loop i s) = tuning s"
  by (simp add: loop_fields timerPhase_keeps menuPhase_tuning controlPhase_keeps)

lemma loop_arm: "\<not> armScreen s \<Longrightarrow> \<not> armScreen (loop i s)"
  by (simp add: loop_fields timerPhase_keeps menuPhase_arm controlPhase_keeps)

lemma reachable_inv: "reachable s \<Longrightarrow> \<not> tuning s \<and> \<not> armScreen s"
proof (induction rule: reachable.induct)
  case (boot b)
  show ?case by (simp add: setupState_def armScreen_def)
next
  case (pass s i)
  then show ?case by (simp add: loop_tuning loop_arm)
qed

section \<open>The overheat failsafe\<close>

text \<open>
  Claim C1. In every pass of \<open>loop()\<close> that the firmware can make, if the temperature the pass
  works with (the sensor reading taken at the top of the pass, or the retained value when
  the sensor does not answer) is at least 130 degrees for either zone, then at the end of
  that pass both zones have \<open>heaterOn = false\<close> and both heater channels carry duty 0,
  whatever the mode of the zones and whatever the menu and the timers did in the pass.
  The passes the firmware can make are those from a \<open>reachable\<close> state: there \<open>tuning\<close> is
  false (nothing assigns it) and neither arming screen is current (nothing leads to 22 or
  32), which is what \<open>reachable_inv\<close> records.
\<close>

theorem overheat_shuts_both_heaters:
  assumes "reachable s" and "overheat (readSensors i s)"
  shows "\<not> heaterOn (enclosure1 (loop i s)) \<and> \<not> heaterOn (enclosure2 (loop i s)) \<and>
         ledc1 (loop i s) = 0 \<and> ledc2 (loop i s) = 0"
proof -
  let ?c = "controlPhase i s" and ?m = "menuPhase i (controlPhase i s)"
  from assms(1) have inv: "\<not> tuning s" "\<not> armScreen s"
    by (simp_all add: reachable_inv)
  then have nt: "\<not> tuning (readSensors i s)"
    by (simp add: readSensors_keeps)
  have c: "\<not> heaterOn (enclosure1 ?c)" "\<not> heaterOn (enclosure2 ?c)"
      "ledc1 ?c = 0" "ledc2 ?c = 0"
    unfolding controlPhase_def
    by (rule pidControl_overheat [OF nt assms(2)])+
  from inv have "\<not> armScreen ?c"
    by (simp add: controlPhase_keeps)
  then have "ctl ?m = ctl ?c"
    by (rule menuPhase_ctl)
  with c have m: "\<not> heaterOn (enclosure1 ?m)" "\<not> heaterOn (enclosure2 ?m)"
    by (simp_all add: ctl_def)
  from c have d: "ledc1 ?m = 0" "ledc2 ?m = 0"
    by (simp_all add: menuPhase_ledc_zero)
  from m d show ?thesis
    by (simp add: loop_fields timerPhase_off)
qed

theorem overheat_shuts_both_heaters_witness:
  "reachable (setupState bootDefault) \<and>
   overheat (readSensors (quiet\<lparr>sensorEnclosure2 := Some 131\<rparr>) (setupState bootDefault)) \<and>
   \<not> heaterOn (enclosure1 (loop (quiet\<lparr>sensorEnclosure2 := Some 131\<rparr>) (setupState bootDefault))) \<and>
   \<not> heaterOn (enclosure2 (loop (quiet\<lparr>sensorEnclosure2 := Some 131\<rparr>) (setupState bootDefault))) \<and>
   ledc1 (loop (quiet\<lparr>sensorEnclosure2 := Some 131\<rparr>) (setupState bootDefault)) = 0 \<and>
   ledc2 (loop (quiet\<lparr>sensorEnclosure2 := Some 131\<rparr>) (setupState bootDefault)) = 0"
proof -
  have r: "reachable (setupState bootDefault)"
    by (rule reachable.boot)
  have h: "overheat (readSensors (quiet\<lparr>sensorEnclosure2 := Some 131\<rparr>) (setupState bootDefault))"
    by (simp add: overheat_def readSensors_def ingest_def quiet_def)
  from overheat_shuts_both_heaters [OF r h] r h show ?thesis
    by simp
qed

section \<open>The control step below 130 degrees\<close>

text \<open>
  Claim C10. In every pass where \<open>tuning\<close> is false and both zones' temperature is below 130
  degrees, the control step sets \<open>heaterOn = true\<close> for both zones and writes the result of
  the PID step to both heater channels. The state before the pass is arbitrary: the timer
  mode, an expired timer, a heater switched off by the previous pass's timer check or a
  channel zeroed by SHUT ALL OFF make no difference.
\<close>

theorem control_step_turns_heaters_on:
  assumes "\<not> tuning s"
    and "currentTemp (enclosure1 (readSensors i s)) < 130"
    and "currentTemp (enclosure2 (readSensors i s)) < 130"
  shows "heaterOn (enclosure1 (controlPhase i s)) \<and>
         heaterOn (enclosure2 (controlPhase i s)) \<and>
         ledc1 (controlPhase i s) =
           word_of_int (sint (step1 i (currentTemp (enclosure1 (readSensors i s)))
                                      (setpoint (enclosure1 s)))) \<and>
         ledc2 (controlPhase i s) =
           word_of_int (sint (step2 i (currentTemp (enclosure2 (readSensors i s)))
                                      (setpoint (enclosure2 s))))"
proof -
  from assms(1) have nt: "\<not> tuning (readSensors i s)"
    by (simp add: readSensors_keeps)
  from assms(2,3) have no: "\<not> overheat (readSensors i s)"
    by (simp add: overheat_def)
  have sp: "setpoint (enclosure1 (readSensors i s)) = setpoint (enclosure1 s)"
      "setpoint (enclosure2 (readSensors i s)) = setpoint (enclosure2 s)"
    by (simp_all add: readSensors_def)
  from pidControl_normal [OF nt no, of i] show ?thesis
    by (simp add: controlPhase_def sp)
qed

text \<open>The example: the first pass after boot ends with heater 1 switched off by the timer
  check (timer mode, \<open>timerSeconds = 0\<close>); the control step of the second pass switches it
  on again and writes the duty 200.\<close>

lemma first_pass_ends_off:
  "\<not> heaterOn (enclosure1 (loop quiet (setupState bootDefault)))"
  by (simp add: loop_fields timerPhase_def timerCheck1_def timerCheck2_def timerCheck_def
     menuPhase_def screenSwitch_def backButton_def encoderButton_def encoderNav_def
     controlPhase_def pidControl_def pidStep_def readSensors_def overheat_def ingest_def
     quiet_def setupState_def bootDefault_def zoneInit_def emit_def elapsedSeconds_def Let_def)

theorem control_step_turns_heaters_on_witness:
  "\<not> tuning (loop quiet (setupState bootDefault)) \<and>
   \<not> heaterOn (enclosure1 (loop quiet (setupState bootDefault))) \<and>
   currentTemp (enclosure1 (readSensors quiet (loop quiet (setupState bootDefault)))) < 130 \<and>
   currentTemp (enclosure2 (readSensors quiet (loop quiet (setupState bootDefault)))) < 130 \<and>
   heaterOn (enclosure1 (controlPhase quiet (loop quiet (setupState bootDefault)))) \<and>
   heaterOn (enclosure2 (controlPhase quiet (loop quiet (setupState bootDefault)))) \<and>
   ledc1 (controlPhase quiet (loop quiet (setupState bootDefault))) = 200 \<and>
   ledc2 (controlPhase quiet (loop quiet (setupState bootDefault))) = 200"
proof -
  let ?s = "loop quiet (setupState bootDefault)"
  have t: "\<not> tuning ?s"
    by (simp add: loop_tuning setupState_def)
  have a: "currentTemp (enclosure1 (readSensors quiet ?s)) < 130"
    by (simp add: readSensors_def ingest_def quiet_def)
  have b: "currentTemp (enclosure2 (readSensors quiet ?s)) < 130"
    by (simp add: readSensors_def ingest_def quiet_def)
  have q: "step1 quiet = (\<lambda>fb sp. 200)" "step2 quiet = (\<lambda>fb sp. 200)"
    by (simp_all add: quiet_def)
  from control_step_turns_heaters_on [OF t a b] t a b first_pass_ends_off show ?thesis
    by (simp add: q)
qed

section \<open>Evaluating passes on concrete inputs\<close>

lemmas pass_defs = loop_def updateScreen_def timerPhase_def timerCheck1_def timerCheck2_def
  timerCheck_def menuPhase_def screenSwitch_def backButton_def encoderButton_def encoderNav_def
  controlPhase_def pidControl_def pidStep_def overheatShutdown_def readSensors_def overheat_def
  ingest_def pressMainMenu_def pressEnclosure1_def pressEnclosure2_def pressFilament1_def
  pressFilament2_def pressSettings_def eepromPut_def displayZone_def timerChoice_def
  tempChoice_def humidityChoice_def emit_def elapsedSeconds_def remainingSeconds_def Let_def
  signed_modulo_int_def signed_divide_int_def word_le_nat_alt word_less_nat_alt

lemmas input_defs = quiet_def press_def turned_def atTime_def overheated_def sensorless_def
  humid_def bootHumid_def setupState_def bootDefault_def zoneInit_def

lemma reachable_run: "reachable s \<Longrightarrow> reachable (run ps s)"
  by (induction ps arbitrary: s) (simp_all add: reachable.pass)

lemma armRun_zone1: "enclosure1 (run armRun (setupState bootDefault)) = armedZone"
  by (simp add: armRun_def armedZone_def pass_defs input_defs)

lemma armRun_lock: "\<not> buzzerLocked (run armRun (setupState bootDefault))"
  by (simp add: armRun_def pass_defs input_defs)

section \<open>The timer check\<close>

lemma beeps_differ:
  "fiveMinuteBeep \<noteq> []" "countdownSequence \<noteq> []" "fiveMinuteBeep \<noteq> countdownSequence"
  "countdownSequence \<noteq> fiveMinuteBeep"
  by (simp_all add: fiveMinuteBeep_def countdownSequence_def shortBeep_def)

lemma elapsed_bound: "unat (elapsedSeconds now z) \<le> 4294967"
proof -
  have "unat (now - timerStart z) < 2 ^ 32"
    using unsigned_less [of "now - timerStart z"] by simp
  then show ?thesis
    by (simp add: elapsedSeconds_def unat_div)
qed

lemma window_not_expired:
  fixes T e :: u32
  assumes "unat e \<le> 4294967" and "0 < T - e" and "T - e \<le> 30"
  shows "e < T"
proof (rule ccontr)
  assume "\<not> e < T"
  then have le: "T \<le> e" by simp
  from assms(2) have "T \<noteq> e" by auto
  with le have "T < e" by simp
  then have lt: "unat T < unat e"
    by (simp add: word_less_nat_alt)
  then have "unat (T - e) = unat T + 2 ^ 32 - unat e"
    by (simp add: unat_sub_if_size word_size)
  with assms(1) lt have "unat (T - e) > 30" by simp
  with assms(3) show False
    by (simp add: word_le_nat_alt)
qed

text \<open>The timer block on a zone in timer mode whose heater is on: it switches \<open>heaterOn\<close>
  off exactly when the whole seconds elapsed since \<open>timerStart\<close> have reached
  \<open>timerSeconds\<close>, and then writes duty 0; otherwise it leaves zone and duty alone.\<close>

lemma timerCheck_expiry:
  assumes "useTimer z" and "heaterOn z"
    and "timerCheck now (z, d, l) = ((z', d', l'), es)"
  shows "(\<not> heaterOn z' \<longleftrightarrow> timerSeconds z \<le> (now - timerStart z) div 1000) \<and>
         (if heaterOn z' then z' = z \<and> d' = d else z' = z\<lparr>heaterOn := False\<rparr> \<and> d' = 0)"
  using assms
  by (auto simp add: timerCheck_def elapsedSeconds_def Let_def split: if_splits)

section \<open>The five-minute warning\<close>

text \<open>
  Claim C4, as the code has it. The five-minute beep is not triggered by \<open>remaining\<close> crossing
  300: it sounds in a timer check exactly when the zone is in timer mode with the heater on,
  \<open>remaining\<close> (\<open>timerSeconds - elapsed\<close>, unsigned) equals 300 and \<open>buzzerLocked\<close> is false.
\<close>

theorem five_minute_beep_on_equality:
  "snd (timerCheck now (z, d, l)) = fiveMinuteBeep \<longleftrightarrow>
     useTimer z \<and> heaterOn z \<and> remainingSeconds now z = 300 \<and> \<not> l"
proof (cases "useTimer z \<and> heaterOn z")
  case False
  then show ?thesis
    using beeps_differ(1) by (auto simp add: timerCheck_def)
next
  case True
  show ?thesis
  proof (cases "remainingSeconds now z = 300")
    case r: True
    then have "\<not> (timerSeconds z - elapsedSeconds now z \<le> 30)"
      by (simp add: remainingSeconds_def)
    with True r show ?thesis
      using beeps_differ(1) by (simp add: timerCheck_def remainingSeconds_def Let_def)
  next
    case r: False
    with True show ?thesis
      using beeps_differ by (auto simp add: timerCheck_def remainingSeconds_def Let_def)
  qed
qed

theorem five_minute_beep_on_equality_witness:
  "snd (timerCheck 900000 (armedZone, 200, False)) = fiveMinuteBeep \<and>
   useTimer armedZone \<and> heaterOn armedZone \<and> remainingSeconds 900000 armedZone = 300"
proof -
  have "useTimer armedZone \<and> heaterOn armedZone \<and> remainingSeconds 900000 armedZone = 300"
    by (simp add: armedZone_def remainingSeconds_def elapsedSeconds_def)
  with five_minute_beep_on_equality [of 900000 armedZone 200 False] show ?thesis
    by simp
qed

text \<open>The counterexample to claim C4: enclosure 1 armed with 1200 seconds by \<open>armRun\<close>. A
  pass whose timer check reads the clock at 899 s (\<open>remaining\<close> = 301) is followed by a pass
  whose timer check reads it at 901 s (\<open>remaining\<close> = 299). \<open>remaining\<close> has crossed 300, and
  neither pass drives the buzzer: each adds only the closing \<open>delay(500)\<close> to the trace.\<close>

theorem five_minute_beep_missed:
  "remainingSeconds 899000 (enclosure1 (run armRun (setupState bootDefault))) = 301 \<and>
   remainingSeconds 901000 (enclosure1 (run armRun (setupState bootDefault))) = 299 \<and>
   trace (run (armRun @ [atTime 899000 (turned 4 quiet)]) (setupState bootDefault)) =
     trace (run armRun (setupState bootDefault)) @ [Delay 500] \<and>
   trace (run (armRun @ [atTime 899000 (turned 4 quiet), atTime 901000 (turned 4 quiet)])
            (setupState bootDefault)) =
     trace (run armRun (setupState bootDefault)) @ [Delay 500, Delay 500]"
  by (simp add: armRun_def pass_defs input_defs)

section \<open>The 30-second sequence\<close>

text \<open>The latch of the 30-second sequence inside one timer check (zone in timer mode,
  heater on): the sequence sounds exactly when \<open>remaining\<close> lies in (0, 30] and the flag
  passed in is false; the flag passed out is true exactly when the flag passed in was true
  or the sequence has just sounded, and the timer has not completed.\<close>

lemma countdown_latch_in_check:
  assumes "useTimer z" and "heaterOn z"
    and "timerCheck now (z, d, l) = ((z', d', l'), es)"
  shows "(es = countdownSequence \<longleftrightarrow>
            0 < remainingSeconds now z \<and> remainingSeconds now z \<le> 30 \<and> \<not> l) \<and>
         (l' \<longleftrightarrow> (l \<or> es = countdownSequence) \<and> elapsedSeconds now z < timerSeconds z) \<and>
         (es = countdownSequence \<longrightarrow> l')"
proof -
  let ?r = "remainingSeconds now z" and ?e = "elapsedSeconds now z"
  let ?fire = "0 < ?r \<and> ?r \<le> 30 \<and> \<not> l"
  have five: "?r = 300 \<Longrightarrow> \<not> ?r \<le> 30"
    by simp
  have es: "es = (if ?r = 300 \<and> \<not> l then fiveMinuteBeep else []) @
                 (if ?fire then countdownSequence else [])"
    using assms
    by (auto simp add: timerCheck_def remainingSeconds_def Let_def split: if_splits)
  have l': "l' = (if timerSeconds z \<le> ?e then False else (?fire \<or> l))"
    using assms
    by (auto simp add: timerCheck_def remainingSeconds_def Let_def split: if_splits)
  have fired: "es = countdownSequence \<longleftrightarrow> ?fire"
    using es five beeps_differ by (cases ?fire; cases "?r = 300 \<and> \<not> l") auto
  have open_timer: "?fire \<Longrightarrow> ?e < timerSeconds z"
    using window_not_expired [OF elapsed_bound, of "timerSeconds z" now z]
    by (simp add: remainingSeconds_def)
  from fired l' open_timer show ?thesis
    by (auto simp add: not_le)
qed

section \<open>After an overheat pass\<close>

text \<open>
  Claim C2, as the code has it. Overheat is not latched. After a pass that shut the heaters
  down because a zone read 130 degrees or more, and after any further passes, a pass in
  which both zones read below 130 sets \<open>heaterOn = true\<close> for both zones in its control
  step and writes the result of the PID step to both channels again; no reset is involved.
\<close>

theorem heaters_resume_after_overheat:
  assumes "reachable s" and "overheat (readSensors i s)"
    and "currentTemp (enclosure1 (readSensors j (run ps (loop i s)))) < 130"
    and "currentTemp (enclosure2 (readSensors j (run ps (loop i s)))) < 130"
  shows "heaterOn (enclosure1 (controlPhase j (run ps (loop i s)))) \<and>
         heaterOn (enclosure2 (controlPhase j (run ps (loop i s)))) \<and>
         ledc1 (controlPhase j (run ps (loop i s))) =
           word_of_int (sint (step1 j
             (currentTemp (enclosure1 (readSensors j (run ps (loop i s)))))
             (setpoint (enclosure1 (run ps (loop i s)))))) \<and>
         ledc2 (controlPhase j (run ps (loop i s))) =
           word_of_int (sint (step2 j
             (currentTemp (enclosure2 (readSensors j (run ps (loop i s)))))
             (setpoint (enclosure2 (run ps (loop i s))))))"
proof -
  let ?t = "run ps (loop i s)"
  from assms(1) have "reachable ?t"
    by (intro reachable_run reachable.pass)
  then have "\<not> tuning ?t"
    by (simp add: reachable_inv)
  then have nt: "\<not> tuning (readSensors j ?t)"
    by (simp add: readSensors_keeps)
  from assms(3,4) have no: "\<not> overheat (readSensors j ?t)"
    by (simp add: overheat_def)
  have sp: "setpoint (enclosure1 (readSensors j ?t)) = setpoint (enclosure1 ?t)"
      "setpoint (enclosure2 (readSensors j ?t)) = setpoint (enclosure2 ?t)"
    by (simp_all add: readSensors_def)
  from pidControl_normal [OF nt no, of j] show ?thesis
    by (simp add: controlPhase_def sp)
qed

theorem heaters_resume_after_overheat_witness:
  "reachable (setupState bootDefault) \<and>
   overheat (readSensors (overheated quiet) (setupState bootDefault)) \<and>
   currentTemp (enclosure1 (readSensors quiet
      (run [] (loop (overheated quiet) (setupState bootDefault))))) < 130 \<and>
   currentTemp (enclosure2 (readSensors quiet
      (run [] (loop (overheated quiet) (setupState bootDefault))))) < 130 \<and>
   heaterOn (enclosure1 (controlPhase quiet
      (run [] (loop (overheated quiet) (setupState bootDefault))))) \<and>
   heaterOn (enclosure2 (controlPhase quiet
      (run [] (loop (overheated quiet) (setupState bootDefault))))) \<and>
   ledc1 (controlPhase quiet (run [] (loop (overheated quiet) (setupState bootDefault)))) = 200 \<and>
   ledc2 (controlPhase quiet (run [] (loop (overheated quiet) (setupState bootDefault)))) = 200"
proof -
  let ?t = "run [] (loop (overheated quiet) (setupState bootDefault))"
  have r: "reachable (setupState bootDefault)"
    by (rule reachable.boot)
  have h: "overheat (readSensors (overheated quiet) (setupState bootDefault))"
    by (simp add: overheat_def readSensors_def ingest_def overheated_def quiet_def)
  have a: "currentTemp (enclosure1 (readSensors quiet ?t)) < 130"
    by (simp add: readSensors_def ingest_def quiet_def)
  have b: "currentTemp (enclosure2 (readSensors quiet ?t)) < 130"
    by (simp add: readSensors_def ingest_def quiet_def)
  have q: "step1 quiet = (\<lambda>fb sp. 200)" "step2 quiet = (\<lambda>fb sp. 200)"
    by (simp_all add: quiet_def)
  from heaters_resume_after_overheat [OF r h a b] r h a b show ?thesis
    by (simp add: q)
qed

text \<open>The counterexample to claim C2: enclosure 1 is put in manual mode (\<open>toManual\<close>); a
  pass reads 135 degrees and ends with heater 1 off and duty 0; the next pass reads 75
  degrees and ends with heater 1 on at duty 200.\<close>

theorem overheat_not_latched:
  "overheat (readSensors (overheated (turned 4 quiet)) (run toManual (setupState bootDefault))) \<and>
   \<not> heaterOn (enclosure1
       (run (toManual @ [overheated (turned 4 quiet)]) (setupState bootDefault))) \<and>
   ledc1 (run (toManual @ [overheated (turned 4 quiet)]) (setupState bootDefault)) = 0 \<and>
   heaterOn (enclosure1
       (run (toManual @ [overheated (turned 4 quiet), turned 4 quiet]) (setupState bootDefault))) \<and>
   ledc1 (run (toManual @ [overheated (turned 4 quiet), turned 4 quiet])
       (setupState bootDefault)) = 200"
  by (simp add: toManual_def pass_defs input_defs)

section \<open>Manual mode and the 56-hour ceiling\<close>

text \<open>
  Claim C6 against the code. \<open>MAX_MANUAL_RUNTIME_SECONDS\<close>, \<open>autoShutoffEnabled\<close> and
  \<open>manualStart\<close> are never read by \<open>loop()\<close>. Enclosure 1 in manual mode (\<open>toManual\<close>) with
  auto-shutoff enabled, as at boot: a pass 201601 seconds later still ends with heater 1
  on at the PID duty.
\<close>

theorem manual_runtime_not_limited:
  "autoShutoffEnabled (run toManual (setupState bootDefault)) \<and>
   \<not> useTimer (enclosure1 (run toManual (setupState bootDefault))) \<and>
   MAX_MANUAL_RUNTIME_SECONDS < unat ((201602000 - 1000 :: u32) div 1000) \<and>
   heaterOn (enclosure1
     (run (toManual @ [atTime 201602000 (turned 4 quiet)]) (setupState bootDefault))) \<and>
   ledc1 (run (toManual @ [atTime 201602000 (turned 4 quiet)]) (setupState bootDefault)) = 200"
  by (simp add: toManual_def MAX_MANUAL_RUNTIME_SECONDS_def pass_defs input_defs)

section \<open>What each phase leaves of a zone\<close>

lemma readSensors_zone:
  "name (enclosure1 (readSensors i s)) = name (enclosure1 s)"
  "name (enclosure2 (readSensors i s)) = name (enclosure2 s)"
  "setpoint (enclosure1 (readSensors i s)) = setpoint (enclosure1 s)"
  "setpoint (enclosure2 (readSensors i s)) = setpoint (enclosure2 s)"
  "currentTemp (enclosure1 (readSensors i s)) =
     ingest (sensorEnclosure1 i) (currentTemp (enclosure1 s))"
  "currentTemp (enclosure2 (readSensors i s)) =
     ingest (sensorEnclosure2 i) (currentTemp (enclosure2 s))"
  by (simp_all add: readSensors_def)

lemma pidControl_zone:
  "name (enclosure1 (pidControl i s)) = name (enclosure1 s)"
  "name (enclosure2 (pidControl i s)) = name (enclosure2 s)"
  "currentTemp (enclosure1 (pidControl i s)) = currentTemp (enclosure1 s)"
  "currentTemp (enclosure2 (pidControl i s)) = currentTemp (enclosure2 s)"
  by (simp_all add: pidControl_def overheatShutdown_def pidStep_def emit_def Let_def)

lemma timerCheck_rest:
  "timerCheck now (z, d, l) = ((z', d', l'), es) \<Longrightarrow>
     z'\<lparr>heaterOn := False\<rparr> = z\<lparr>heaterOn := False\<rparr>"
  by (auto simp add: timerCheck_def Let_def split: if_splits)

lemma timerCheck1_rest:
  "(enclosure1 (timerCheck1 i s))\<lparr>heaterOn := False\<rparr> = (enclosure1 s)\<lparr>heaterOn := False\<rparr>"
proof -
  obtain z' d' l' es where
    t: "timerCheck (millisTimer1 i) (enclosure1 s, ledc1 s, buzzerLocked s) = ((z', d', l'), es)"
    by (cases "timerCheck (millisTimer1 i) (enclosure1 s, ledc1 s, buzzerLocked s)") auto
  from timerCheck_rest [OF t] t show ?thesis
    by (simp add: timerCheck1_def emit_def)
qed

lemma timerCheck2_rest:
  "(enclosure2 (timerCheck2 i s))\<lparr>heaterOn := False\<rparr> = (enclosure2 s)\<lparr>heaterOn := False\<rparr>"
proof -
  obtain z' d' l' es where
    t: "timerCheck (millisTimer2 i) (enclosure2 s, ledc2 s, buzzerLocked s) = ((z', d', l'), es)"
    by (cases "timerCheck (millisTimer2 i) (enclosure2 s, ledc2 s, buzzerLocked s)") auto
  from timerCheck_rest [OF t] t show ?thesis
    by (simp add: timerCheck2_def emit_def)
qed

lemma timerPhase_rest:
  "(enclosure1 (timerPhase i s))\<lparr>heaterOn := False\<rparr> = (enclosure1 s)\<lparr>heaterOn := False\<rparr>"
  "(enclosure2 (timerPhase i s))\<lparr>heaterOn := False\<rparr> = (enclosure2 s)\<lparr>heaterOn := False\<rparr>"
  by (simp_all add: timerPhase_def timerCheck1_rest timerCheck2_rest timerCheck1_other
      timerCheck2_other)

lemma rest_fields:
  assumes "z'\<lparr>heaterOn := False\<rparr> = z\<lparr>heaterOn := False\<rparr>"
  shows "name z' = name z" and "currentTemp z' = currentTemp z"
    and "setpoint z' = setpoint z" and "timerSeconds z' = timerSeconds z"
    and "useTimer z' = useTimer z" and "timerStart z' = timerStart z"
proof -
  from assms have "name (z'\<lparr>heaterOn := False\<rparr>) = name (z\<lparr>heaterOn := False\<rparr>)"
    by (rule arg_cong)
  then show "name z' = name z" by simp
  from assms have "currentTemp (z'\<lparr>heaterOn := False\<rparr>) = currentTemp (z\<lparr>heaterOn := False\<rparr>)"
    by (rule arg_cong)
  then show "currentTemp z' = currentTemp z" by simp
  from assms have "setpoint (z'\<lparr>heaterOn := False\<rparr>) = setpoint (z\<lparr>heaterOn := False\<rparr>)"
    by (rule arg_cong)
  then show "setpoint z' = setpoint z" by simp
  from assms have "timerSeconds (z'\<lparr>heaterOn := False\<rparr>) = timerSeconds (z\<lparr>heaterOn := False\<rparr>)"
    by (rule arg_cong)
  then show "timerSeconds z' = timerSeconds z" by simp
  from assms have "useTimer (z'\<lparr>heaterOn := False\<rparr>) = useTimer (z\<lparr>heaterOn := False\<rparr>)"
    by (rule arg_cong)
  then show "useTimer z' = useTimer z" by simp
  from assms have "timerStart (z'\<lparr>heaterOn := False\<rparr>) = timerStart (z\<lparr>heaterOn := False\<rparr>)"
    by (rule arg_cong)
  then show "timerStart z' = timerStart z" by simp
qed

lemma loop_zone:
  assumes "\<not> armScreen s"
  shows "name (enclosure1 (loop i s)) = name (enclosure1 s)"
    and "name (enclosure2 (loop i s)) = name (enclosure2 s)"
    and "currentTemp (enclosure1 (loop i s)) = currentTemp (enclosure1 (readSensors i s))"
    and "currentTemp (enclosure2 (loop i s)) = currentTemp (enclosure2 (readSensors i s))"
proof -
  let ?c = "controlPhase i s"
  from assms have "\<not> armScreen ?c"
    by (simp add: controlPhase_keeps)
  then have "ctl (menuPhase i ?c) = ctl ?c"
    by (rule menuPhase_ctl)
  then have m: "name (enclosure1 (menuPhase i ?c)) = name (enclosure1 ?c)"
      "name (enclosure2 (menuPhase i ?c)) = name (enclosure2 ?c)"
      "currentTemp (enclosure1 (menuPhase i ?c)) = currentTemp (enclosure1 ?c)"
      "currentTemp (enclosure2 (menuPhase i ?c)) = currentTemp (enclosure2 ?c)"
    by (simp_all add: ctl_def)
  have c: "name (enclosure1 ?c) = name (enclosure1 s)"
      "name (enclosure2 ?c) = name (enclosure2 s)"
      "currentTemp (enclosure1 ?c) = currentTemp (enclosure1 (readSensors i s))"
      "currentTemp (enclosure2 ?c) = currentTemp (enclosure2 (readSensors i s))"
    by (simp_all add: controlPhase_def pidControl_zone readSensors_zone)
  note t = rest_fields [OF timerPhase_rest(1)] rest_fields [OF timerPhase_rest(2)]
  show "name (enclosure1 (loop i s)) = name (enclosure1 s)"
    and "name (enclosure2 (loop i s)) = name (enclosure2 s)"
    and "currentTemp (enclosure1 (loop i s)) = currentTemp (enclosure1 (readSensors i s))"
    and "currentTemp (enclosure2 (loop i s)) = currentTemp (enclosure2 (readSensors i s))"
    by (simp_all add: loop_fields t m c)
qed

lemma reachable_names:
  "reachable s \<Longrightarrow>
     name (enclosure1 s) = ''3D Enclosure 1'' \<and> name (enclosure2 s) = ''3D Enclosure 2''"
proof (induction rule: reachable.induct)
  case (boot b)
  show ?case by (simp add: setupState_def zoneInit_def)
next
  case (pass s i)
  from pass.hyps have "\<not> armScreen s"
    by (simp add: reachable_inv)
  with pass.IH show ?case
    by (simp add: loop_zone)
qed

section \<open>Sensor unavailable\<close>

text \<open>
  Claim C7, as the code has it. In a pass in which the sensor of a zone does not answer,
  the zone's \<open>currentTemp\<close> keeps its last value to the end of the pass, and the control step
  runs on that retained value as on any reading: when a zone is at 130 degrees or more it
  switches the zone off with duty 0, otherwise it takes a PID step on the retained value,
  sets \<open>heaterOn = true\<close> and writes the duty.
\<close>

theorem sensor_unavailable_keeps_value_and_recomputes:
  assumes "reachable s"
  shows "(sensorEnclosure1 i = None \<longrightarrow>
            currentTemp (enclosure1 (loop i s)) = currentTemp (enclosure1 s) \<and>
            (if overheat (readSensors i s)
             then \<not> heaterOn (enclosure1 (controlPhase i s)) \<and> ledc1 (controlPhase i s) = 0
             else heaterOn (enclosure1 (controlPhase i s)) \<and>
                  ledc1 (controlPhase i s) = word_of_int (sint
                    (step1 i (currentTemp (enclosure1 s)) (setpoint (enclosure1 s)))))) \<and>
         (sensorEnclosure2 i = None \<longrightarrow>
            currentTemp (enclosure2 (loop i s)) = currentTemp (enclosure2 s) \<and>
            (if overheat (readSensors i s)
             then \<not> heaterOn (enclosure2 (controlPhase i s)) \<and> ledc2 (controlPhase i s) = 0
             else heaterOn (enclosure2 (controlPhase i s)) \<and>
                  ledc2 (controlPhase i s) = word_of_int (sint
                    (step2 i (currentTemp (enclosure2 s)) (setpoint (enclosure2 s))))))"
proof -
  from assms have inv: "\<not> tuning s" "\<not> armScreen s"
    by (simp_all add: reachable_inv)
  then have nt: "\<not> tuning (readSensors i s)"
    by (simp add: readSensors_keeps)
  have ctl: "if overheat (readSensors i s)
      then \<not> heaterOn (enclosure1 (controlPhase i s)) \<and> ledc1 (controlPhase i s) = 0 \<and>
           \<not> heaterOn (enclosure2 (controlPhase i s)) \<and> ledc2 (controlPhase i s) = 0
      else heaterOn (enclosure1 (controlPhase i s)) \<and>
           ledc1 (controlPhase i s) = word_of_int (sint (step1 i
             (currentTemp (enclosure1 (readSensors i s))) (setpoint (enclosure1 s)))) \<and>
           heaterOn (enclosure2 (controlPhase i s)) \<and>
           ledc2 (controlPhase i s) = word_of_int (sint (step2 i
             (currentTemp (enclosure2 (readSensors i s))) (setpoint (enclosure2 s))))"
  proof (cases "overheat (readSensors i s)")
    case True
    with pidControl_overheat [OF nt True, of i] show ?thesis
      by (simp add: controlPhase_def)
  next
    case False
    with pidControl_normal [OF nt False, of i] show ?thesis
      by (simp add: controlPhase_def readSensors_zone)
  qed
  have keep1: "sensorEnclosure1 i = None \<Longrightarrow>
      currentTemp (enclosure1 (readSensors i s)) = currentTemp (enclosure1 s)"
    by (simp add: readSensors_zone ingest_def)
  have keep2: "sensorEnclosure2 i = None \<Longrightarrow>
      currentTemp (enclosure2 (readSensors i s)) = currentTemp (enclosure2 s)"
    by (simp add: readSensors_zone ingest_def)
  show ?thesis
  proof (cases "overheat (readSensors i s)")
    case True
    with ctl keep1 keep2 inv(2) show ?thesis
      by (simp add: loop_zone)
  next
    case False
    with ctl keep1 keep2 inv(2) show ?thesis
      by (simp add: loop_zone)
  qed
qed

theorem sensor_unavailable_keeps_value_and_recomputes_witness:
  "reachable (setupState bootDefault) \<and>
   sensorEnclosure1 (sensorless quiet) = None \<and>
   \<not> overheat (readSensors (sensorless quiet) (setupState bootDefault)) \<and>
   currentTemp (enclosure1 (loop (sensorless quiet) (setupState bootDefault))) =
     currentTemp (enclosure1 (setupState bootDefault)) \<and>
   heaterOn (enclosure1 (controlPhase (sensorless quiet) (setupState bootDefault))) \<and>
   ledc1 (controlPhase (sensorless quiet) (setupState bootDefault)) = 120"
proof -
  have r: "reachable (setupState bootDefault)"
    by (rule reachable.boot)
  have n: "sensorEnclosure1 (sensorless quiet) = None"
      "sensorEnclosure2 (sensorless quiet) = Some 75"
      "step1 (sensorless quiet) = (\<lambda>fb sp. 120)"
    by (simp_all add: sensorless_def quiet_def)
  have o: "\<not> overheat (readSensors (sensorless quiet) (setupState bootDefault))"
    by (simp add: overheat_def readSensors_def ingest_def n setupState_def zoneInit_def)
  from sensor_unavailable_keeps_value_and_recomputes [OF r, of "sensorless quiet"] r n o
  show ?thesis
    by simp
qed

text \<open>The counterexample to claim C7: with enclosure 1 in manual mode, on at duty 200, a
  pass in which its sensor does not answer keeps \<open>currentTemp\<close> at 75 and still takes a PID
  step (the result, 120, is stored in \<open>output\<close> and written to the channel). From boot, with
  the heater off, the control step of such a pass switches \<open>heaterOn\<close> on.\<close>

theorem sensor_unavailable_still_recomputes:
  "sensorEnclosure1 (sensorless (turned 4 quiet)) = None \<and>
   currentTemp (enclosure1 (run toManual (setupState bootDefault))) = 75 \<and>
   ledc1 (run toManual (setupState bootDefault)) = 200 \<and>
   output_pid (enclosure1 (run toManual (setupState bootDefault))) = 200 \<and>
   currentTemp (enclosure1
     (run (toManual @ [sensorless (turned 4 quiet)]) (setupState bootDefault))) = 75 \<and>
   ledc1 (run (toManual @ [sensorless (turned 4 quiet)]) (setupState bootDefault)) = 120 \<and>
   output_pid (enclosure1
     (run (toManual @ [sensorless (turned 4 quiet)]) (setupState bootDefault))) = 120 \<and>
   \<not> heaterOn (enclosure1 (setupState bootDefault)) \<and>
   heaterOn (enclosure1 (controlPhase (sensorless quiet) (setupState bootDefault)))"
  by (simp add: toManual_def pass_defs input_defs)

section \<open>The value screens\<close>

lemma controlPhase_menu_inputs:
  "screenIndex (controlPhase i s) = screenIndex s"
  "backButtonPressed (controlPhase i s) = backButtonPressed s"
  "settings (controlPhase i s) = settings s"
  by (simp_all add: controlPhase_def pidControl_def overheatShutdown_def pidStep_def
      readSensors_def settings_def emit_def Let_def)

lemma encoderNav_value:
  "lastEncoderPos (encoderNav i s) = encoderRead i sdiv 4"
  "backButtonPressed (encoderNav i s) = backButtonPressed s"
  "settings (encoderNav i s) = settings s"
  by (simp_all add: encoderNav_def settings_def Let_def)

lemma encoderButton_value:
  assumes "valueScreen (screenIndex s)"
  shows "screenIndex (encoderButton i s) = screenIndex s"
    and "lastEncoderPos (encoderButton i s) = lastEncoderPos s"
    and "backButtonPressed (encoderButton i s) = backButtonPressed s"
    and "settings (encoderButton i s) = settings s"
proof -
  from assms have n: "screenIndex s \<noteq> 100" "screenIndex s \<noteq> 12" "screenIndex s \<noteq> 13"
      "screenIndex s \<noteq> 10" "screenIndex s \<noteq> 11" "screenIndex s \<noteq> 99"
    by (auto simp add: valueScreen_def)
  from n show "screenIndex (encoderButton i s) = screenIndex s"
    and "lastEncoderPos (encoderButton i s) = lastEncoderPos s"
    and "backButtonPressed (encoderButton i s) = backButtonPressed s"
    and "settings (encoderButton i s) = settings s"
    by (simp_all add: encoderButton_def settings_def emit_def Let_def)
qed

lemma backButton_value:
  "screenIndex (backButton i s) =
     (if backButtonLow i \<and> \<not> backButtonPressed s then 100 else screenIndex s)"
  "lastEncoderPos (backButton i s) = lastEncoderPos s"
  "settings (backButton i s) = settings s"
  by (simp_all add: backButton_def settings_def)

lemma buttons_value:
  assumes "valueScreen (screenIndex s)"
  shows "screenIndex (backButton i (encoderButton i (encoderNav i s))) =
           (if backButtonLow i \<and> \<not> backButtonPressed s then 100 else screenIndex s)"
    and "lastEncoderPos (backButton i (encoderButton i (encoderNav i s))) = encoderRead i sdiv 4"
    and "settings (backButton i (encoderButton i (encoderNav i s))) = settings s"
proof -
  from assms have v: "valueScreen (screenIndex (encoderNav i s))"
    by (simp add: encoderNav_screen)
  show "screenIndex (backButton i (encoderButton i (encoderNav i s))) =
           (if backButtonLow i \<and> \<not> backButtonPressed s then 100 else screenIndex s)"
    and "lastEncoderPos (backButton i (encoderButton i (encoderNav i s))) = encoderRead i sdiv 4"
    and "settings (backButton i (encoderButton i (encoderNav i s))) = settings s"
    by (simp_all add: backButton_value encoderButton_value [OF v] encoderNav_value
        encoderNav_screen)
qed

lemma screenSwitch_main: "screenIndex s = 100 \<Longrightarrow> screenSwitch i s = s"
  by (simp add: screenSwitch_def)

lemma screenSwitch_value:
  "screenIndex s = 24 \<Longrightarrow>
     setpoint (enclosure1 (screenSwitch i s)) = real_of_int (70 + \<bar>lastEncoderPos s\<bar> mod 51)"
  "screenIndex s = 34 \<Longrightarrow>
     setpoint (enclosure2 (screenSwitch i s)) = real_of_int (70 + \<bar>lastEncoderPos s\<bar> mod 51)"
  "screenIndex s = 25 \<Longrightarrow>
     humidityLimit1 (screenSwitch i s) = 30 + \<bar>lastEncoderPos s\<bar> mod 70 \<and>
     eeprom (screenSwitch i s) 0 = Some (IntCell (30 + \<bar>lastEncoderPos s\<bar> mod 70))"
  "screenIndex s = 35 \<Longrightarrow>
     humidityLimit2 (screenSwitch i s) = 30 + \<bar>lastEncoderPos s\<bar> mod 70 \<and>
     eeprom (screenSwitch i s) 4 = Some (IntCell (30 + \<bar>lastEncoderPos s\<bar> mod 70))"
  "screenIndex s = 26 \<Longrightarrow>
     humidityLimitF1 (screenSwitch i s) = 30 + \<bar>lastEncoderPos s\<bar> mod 70 \<and>
     eeprom (screenSwitch i s) 8 = Some (IntCell (30 + \<bar>lastEncoderPos s\<bar> mod 70))"
  "screenIndex s = 36 \<Longrightarrow>
     humidityLimitF2 (screenSwitch i s) = 30 + \<bar>lastEncoderPos s\<bar> mod 70 \<and>
     eeprom (screenSwitch i s) 12 = Some (IntCell (30 + \<bar>lastEncoderPos s\<bar> mod 70))"
  "screenIndex s = 21 \<Longrightarrow>
     timerSeconds (enclosure1 (screenSwitch i s)) =
       word_of_int (max (\<bar>lastEncoderPos s\<bar> mod 289) 2 * 600)"
  "screenIndex s = 31 \<Longrightarrow>
     timerSeconds (enclosure2 (screenSwitch i s)) =
       word_of_int (max (\<bar>lastEncoderPos s\<bar> mod 289) 2 * 600)"
  by (simp_all add: screenSwitch_def eepromPut_def tempChoice_def humidityChoice_def
      timerChoice_def)

lemma timerCheck1_settings: "settings (timerCheck1 i s) = settings s"
proof -
  have "eeprom (timerCheck1 i s) = eeprom s" "humidityLimit1 (timerCheck1 i s) = humidityLimit1 s"
    "humidityLimit2 (timerCheck1 i s) = humidityLimit2 s"
    "humidityLimitF1 (timerCheck1 i s) = humidityLimitF1 s"
    "humidityLimitF2 (timerCheck1 i s) = humidityLimitF2 s"
    by (simp_all add: timerCheck1_def emit_def split: prod.splits)
  then show ?thesis
    by (simp add: settings_def timerCheck1_other rest_fields [OF timerCheck1_rest])
qed

lemma timerCheck2_settings: "settings (timerCheck2 i s) = settings s"
proof -
  have "eeprom (timerCheck2 i s) = eeprom s" "humidityLimit1 (timerCheck2 i s) = humidityLimit1 s"
    "humidityLimit2 (timerCheck2 i s) = humidityLimit2 s"
    "humidityLimitF1 (timerCheck2 i s) = humidityLimitF1 s"
    "humidityLimitF2 (timerCheck2 i s) = humidityLimitF2 s"
    by (simp_all add: timerCheck2_def emit_def split: prod.splits)
  then show ?thesis
    by (simp add: settings_def timerCheck2_other rest_fields [OF timerCheck2_rest])
qed

lemma loop_settings: "settings (loop i s) = settings (menuPhase i (controlPhase i s))"
proof -
  have "\<And>t. settings (emit [Delay 500] (updateScreen t)) = settings t"
    by (simp add: settings_def emit_def updateScreen_def)
  then show ?thesis
    by (simp add: loop_def timerPhase_def timerCheck1_settings timerCheck2_settings)
qed

lemma loop_setting_fields:
  "setpoint (enclosure1 (loop i s)) = setpoint (enclosure1 (menuPhase i (controlPhase i s)))"
  "setpoint (enclosure2 (loop i s)) = setpoint (enclosure2 (menuPhase i (controlPhase i s)))"
  "timerSeconds (enclosure1 (loop i s)) =
     timerSeconds (enclosure1 (menuPhase i (controlPhase i s)))"
  "timerSeconds (enclosure2 (loop i s)) =
     timerSeconds (enclosure2 (menuPhase i (controlPhase i s)))"
  "humidityLimit1 (loop i s) = humidityLimit1 (menuPhase i (controlPhase i s))"
  "humidityLimit2 (loop i s) = humidityLimit2 (menuPhase i (controlPhase i s))"
  "humidityLimitF1 (loop i s) = humidityLimitF1 (menuPhase i (controlPhase i s))"
  "humidityLimitF2 (loop i s) = humidityLimitF2 (menuPhase i (controlPhase i s))"
  "eeprom (loop i s) = eeprom (menuPhase i (controlPhase i s))"
  using loop_settings [of i s] by (simp_all add: settings_def)

text \<open>
  Claim C8, as the code has it. On every value-adjust screen (temperature set 24/34,
  humidity limit 25/35/26/36, timer duration 21/31) the screen switch assigns the value
  computed from the encoder position to the active setting, and for a humidity limit puts
  it in the EEPROM, in every pass in which the screen is the current one, whether the
  encoder switch is pressed or not. A pass with a back-button edge leaves for the main
  menu before the screen switch and keeps the settings as the earlier passes wrote them.
\<close>

theorem value_screens_write_every_pass:
  "if backButtonLow i \<and> \<not> backButtonPressed s
   then valueScreen (screenIndex s) \<longrightarrow> settings (loop i s) = settings s
   else
     (screenIndex s = 24 \<longrightarrow>
        setpoint (enclosure1 (loop i s)) = real_of_int (70 + \<bar>encoderRead i sdiv 4\<bar> mod 51)) \<and>
     (screenIndex s = 34 \<longrightarrow>
        setpoint (enclosure2 (loop i s)) = real_of_int (70 + \<bar>encoderRead i sdiv 4\<bar> mod 51)) \<and>
     (screenIndex s = 25 \<longrightarrow>
        humidityLimit1 (loop i s) = 30 + \<bar>encoderRead i sdiv 4\<bar> mod 70 \<and>
        eeprom (loop i s) 0 = Some (IntCell (30 + \<bar>encoderRead i sdiv 4\<bar> mod 70))) \<and>
     (screenIndex s = 35 \<longrightarrow>
        humidityLimit2 (loop i s) = 30 + \<bar>encoderRead i sdiv 4\<bar> mod 70 \<and>
        eeprom (loop i s) 4 = Some (IntCell (30 + \<bar>encoderRead i sdiv 4\<bar> mod 70))) \<and>
     (screenIndex s = 26 \<longrightarrow>
        humidityLimitF1 (loop i s) = 30 + \<bar>encoderRead i sdiv 4\<bar> mod 70 \<and>
        eeprom (loop i s) 8 = Some (IntCell (30 + \<bar>encoderRead i sdiv 4\<bar> mod 70))) \<and>
     (screenIndex s = 36 \<longrightarrow>
        humidityLimitF2 (loop i s) = 30 + \<bar>encoderRead i sdiv 4\<bar> mod 70 \<and>
        eeprom (loop i s) 12 = Some (IntCell (30 + \<bar>encoderRead i sdiv 4\<bar> mod 70))) \<and>
     (screenIndex s = 21 \<longrightarrow>
        timerSeconds (enclosure1 (loop i s)) =
          word_of_int (max (\<bar>encoderRead i sdiv 4\<bar> mod 289) 2 * 600)) \<and>
     (screenIndex s = 31 \<longrightarrow>
        timerSeconds (enclosure2 (loop i s)) =
          word_of_int (max (\<bar>encoderRead i sdiv 4\<bar> mod 289) 2 * 600))"
proof -
  let ?c = "controlPhase i s"
  let ?b = "backButton i (encoderButton i (encoderNav i ?c))"
  have m: "menuPhase i ?c = screenSwitch i ?b"
    by (simp add: menuPhase_def)
  show ?thesis
  proof (cases "backButtonLow i \<and> \<not> backButtonPressed s")
    case True
    have "settings (loop i s) = settings s" if "valueScreen (screenIndex s)"
    proof -
      from that have v: "valueScreen (screenIndex ?c)"
        by (simp add: controlPhase_menu_inputs)
      from True have "screenIndex ?b = 100"
        by (simp add: buttons_value(1) [OF v] controlPhase_menu_inputs)
      then have "screenSwitch i ?b = ?b"
        by (rule screenSwitch_main)
      then show ?thesis
        by (simp add: loop_settings m buttons_value(3) [OF v] controlPhase_menu_inputs)
    qed
    with True show ?thesis by simp
  next
    case False
    have b: "screenIndex ?b = screenIndex s \<and> lastEncoderPos ?b = encoderRead i sdiv 4"
      if "valueScreen (screenIndex s)"
    proof -
      from that have v: "valueScreen (screenIndex ?c)"
        by (simp add: controlPhase_menu_inputs)
      from False show ?thesis
        by (auto simp add: buttons_value [OF v] controlPhase_menu_inputs)
    qed
    have s24: "setpoint (enclosure1 (loop i s)) =
        real_of_int (70 + \<bar>encoderRead i sdiv 4\<bar> mod 51)" if k: "screenIndex s = 24"
    proof -
      from k b have "screenIndex ?b = 24" "lastEncoderPos ?b = encoderRead i sdiv 4"
        by (simp_all add: valueScreen_def)
      then show ?thesis
        using screenSwitch_value(1) [of ?b i] by (simp add: loop_setting_fields m)
    qed
    have s34: "setpoint (enclosure2 (loop i s)) =
        real_of_int (70 + \<bar>encoderRead i sdiv 4\<bar> mod 51)" if k: "screenIndex s = 34"
    proof -
      from k b have "screenIndex ?b = 34" "lastEncoderPos ?b = encoderRead i sdiv 4"
        by (simp_all add: valueScreen_def)
      then show ?thesis
        using screenSwitch_value(2) [of ?b i] by (simp add: loop_setting_fields m)
    qed
    have s25: "humidityLimit1 (loop i s) = 30 + \<bar>encoderRead i sdiv 4\<bar> mod 70 \<and>
        eeprom (loop i s) 0 = Some (IntCell (30 + \<bar>encoderRead i sdiv 4\<bar> mod 70))"
      if k: "screenIndex s = 25"
    proof -
      from k b have "screenIndex ?b = 25" "lastEncoderPos ?b = encoderRead i sdiv 4"
        by (simp_all add: valueScreen_def)
      then show ?thesis
        using screenSwitch_value(3) [of ?b i] by (simp add: loop_setting_fields m)
    qed
    have s35: "humidityLimit2 (loop i s) = 30 + \<bar>encoderRead i sdiv 4\<bar> mod 70 \<and>
        eeprom (loop i s) 4 = Some (IntCell (30 + \<bar>encoderRead i sdiv 4\<bar> mod 70))"
      if k: "screenIndex s = 35"
    proof -
      from k b have "screenIndex ?b = 35" "lastEncoderPos ?b = encoderRead i sdiv 4"
        by (simp_all add: valueScreen_def)
      then show ?thesis
        using screenSwitch_value(4) [of ?b i] by (simp add: loop_setting_fields m)
    qed
    have s26: "humidityLimitF1 (loop i s) = 30 + \<bar>encoderRead i sdiv 4\<bar> mod 70 \<and>
        eeprom (loop i s) 8 = Some (IntCell (30 + \<bar>encoderRead i sdiv 4\<bar> mod 70))"
      if k: "screenIndex s = 26"
    proof -
      from k b have "screenIndex ?b = 26" "lastEncoderPos ?b = encoderRead i sdiv 4"
        by (simp_all add: valueScreen_def)
      then show ?thesis
        using screenSwitch_value(5) [of ?b i] by (simp add: loop_setting_fields m)
    qed
    have s36: "humidityLimitF2 (loop i s) = 30 + \<bar>encoderRead i sdiv 4\<bar> mod 70 \<and>
        eeprom (loop i s) 12 = Some (IntCell (30 + \<bar>encoderRead i sdiv 4\<bar> mod 70))"
      if k: "screenIndex s = 36"
    proof -
      from k b have "screenIndex ?b = 36" "lastEncoderPos ?b = encoderRead i sdiv 4"
        by (simp_all add: valueScreen_def)
      then show ?thesis
        using screenSwitch_value(6) [of ?b i] by (simp add: loop_setting_fields m)
    qed
    have s21: "timerSeconds (enclosure1 (loop i s)) =
        word_of_int (max (\<bar>encoderRead i sdiv 4\<bar> mod 289) 2 * 600)" if k: "screenIndex s = 21"
    proof -
      from k b have "screenIndex ?b = 21" "lastEncoderPos ?b = encoderRead i sdiv 4"
        by (simp_all add: valueScreen_def)
      then show ?thesis
        using screenSwitch_value(7) [of ?b i] by (simp add: loop_setting_fields m)
    qed
    have s31: "timerSeconds (enclosure2 (loop i s)) =
        word_of_int (max (\<bar>encoderRead i sdiv 4\<bar> mod 289) 2 * 600)" if k: "screenIndex s = 31"
    proof -
      from k b have "screenIndex ?b = 31" "lastEncoderPos ?b = encoderRead i sdiv 4"
        by (simp_all add: valueScreen_def)
      then show ?thesis
        using screenSwitch_value(8) [of ?b i] by (simp add: loop_setting_fields m)
    qed
    from False s24 s34 s25 s35 s26 s36 s21 s31 show ?thesis
      by (simp only: if_False) blast
  qed
qed

theorem value_screens_write_every_pass_witness:
  "screenIndex (run toHumidityScreen (setupState bootDefault)) = 25 \<and>
   \<not> backButtonLow (turned 40 quiet) \<and>
   humidityLimit1 (loop (turned 40 quiet) (run toHumidityScreen (setupState bootDefault))) = 40 \<and>
   eeprom (loop (turned 40 quiet) (run toHumidityScreen (setupState bootDefault))) 0 =
     Some (IntCell 40)"
proof -
  have k: "screenIndex (run toHumidityScreen (setupState bootDefault)) = 25"
    by (simp add: toHumidityScreen_def pass_defs input_defs)
  have n: "\<not> backButtonLow (turned 40 quiet)" and e: "encoderRead (turned 40 quiet) = 40"
    by (simp_all add: turned_def quiet_def)
  from value_screens_write_every_pass
    [of "turned 40 quiet" "run toHumidityScreen (setupState bootDefault)"] k n
  show ?thesis
    by (simp add: e)
qed

text \<open>The counterexample to claim C8: the humidity limit screen of enclosure 1 is reached
  with the encoder at position 4 (limit 34, stored). In the next pass the encoder is at
  position 10 and no button is pressed: the active limit and the EEPROM both hold 40.
  A back-button pass then returns to the main menu and the limit stays 40.\<close>

theorem value_written_without_press:
  "screenIndex (run toHumidityScreen (setupState bootDefault)) = 25 \<and>
   humidityLimit1 (run toHumidityScreen (setupState bootDefault)) = 34 \<and>
   eeprom (run toHumidityScreen (setupState bootDefault)) 0 = Some (IntCell 34) \<and>
   \<not> encoderSwLow (turned 40 quiet) \<and>
   humidityLimit1 (run (toHumidityScreen @ [turned 40 quiet]) (setupState bootDefault)) = 40 \<and>
   eeprom (run (toHumidityScreen @ [turned 40 quiet]) (setupState bootDefault)) 0 =
     Some (IntCell 40) \<and>
   screenIndex (run (toHumidityScreen @ [turned 40 quiet, (turned 40 quiet)\<lparr>backButtonLow := True\<rparr>])
     (setupState bootDefault)) = 100 \<and>
   humidityLimit1 (run (toHumidityScreen @ [turned 40 quiet, (turned 40 quiet)\<lparr>backButtonLow := True\<rparr>])
     (setupState bootDefault)) = 40"
  by (simp add: toHumidityScreen_def pass_defs input_defs)

section \<open>The timer in a whole pass\<close>

lemma timerCheck1_on:
  assumes "heaterOn (enclosure1 s)" and "useTimer (enclosure1 s)"
  shows "\<not> heaterOn (enclosure1 (timerCheck1 i s)) \<longleftrightarrow>
           timerSeconds (enclosure1 s) \<le> (millisTimer1 i - timerStart (enclosure1 s)) div 1000"
    and "\<not> heaterOn (enclosure1 (timerCheck1 i s)) \<Longrightarrow> ledc1 (timerCheck1 i s) = 0"
proof -
  obtain z' d' l' es where
    t: "timerCheck (millisTimer1 i) (enclosure1 s, ledc1 s, buzzerLocked s) = ((z', d', l'), es)"
    by (cases "timerCheck (millisTimer1 i) (enclosure1 s, ledc1 s, buzzerLocked s)") auto
  have z: "enclosure1 (timerCheck1 i s) = z'" "ledc1 (timerCheck1 i s) = d'"
    by (simp_all add: timerCheck1_def t emit_def)
  note e = timerCheck_expiry [OF assms(2) assms(1) t]
  from e show "\<not> heaterOn (enclosure1 (timerCheck1 i s)) \<longleftrightarrow>
      timerSeconds (enclosure1 s) \<le> (millisTimer1 i - timerStart (enclosure1 s)) div 1000"
    by (simp add: z)
  from e show "\<not> heaterOn (enclosure1 (timerCheck1 i s)) \<Longrightarrow> ledc1 (timerCheck1 i s) = 0"
    by (simp add: z split: if_splits)
qed

lemma timerCheck2_on:
  assumes "heaterOn (enclosure2 s)" and "useTimer (enclosure2 s)"
  shows "\<not> heaterOn (enclosure2 (timerCheck2 i s)) \<longleftrightarrow>
           timerSeconds (enclosure2 s) \<le> (millisTimer2 i - timerStart (enclosure2 s)) div 1000"
    and "\<not> heaterOn (enclosure2 (timerCheck2 i s)) \<Longrightarrow> ledc2 (timerCheck2 i s) = 0"
proof -
  obtain z' d' l' es where
    t: "timerCheck (millisTimer2 i) (enclosure2 s, ledc2 s, buzzerLocked s) = ((z', d', l'), es)"
    by (cases "timerCheck (millisTimer2 i) (enclosure2 s, ledc2 s, buzzerLocked s)") auto
  have z: "enclosure2 (timerCheck2 i s) = z'" "ledc2 (timerCheck2 i s) = d'"
    by (simp_all add: timerCheck2_def t emit_def)
  note e = timerCheck_expiry [OF assms(2) assms(1) t]
  from e show "\<not> heaterOn (enclosure2 (timerCheck2 i s)) \<longleftrightarrow>
      timerSeconds (enclosure2 s) \<le> (millisTimer2 i - timerStart (enclosure2 s)) div 1000"
    by (simp add: z)
  from e show "\<not> heaterOn (enclosure2 (timerCheck2 i s)) \<Longrightarrow> ledc2 (timerCheck2 i s) = 0"
    by (simp add: z split: if_splits)
qed

lemma overheat_pass_off:
  assumes "\<not> tuning s" and "\<not> armScreen s" and "overheat (readSensors i s)"
  shows "\<not> heaterOn (enclosure1 (loop i s))" and "\<not> heaterOn (enclosure2 (loop i s))"
    and "ledc1 (loop i s) = 0" and "ledc2 (loop i s) = 0"
proof -
  let ?c = "controlPhase i s"
  let ?m = "menuPhase i ?c"
  from assms(1) have "\<not> tuning (readSensors i s)"
    by (simp add: readSensors_keeps)
  note off = pidControl_overheat [OF this assms(3), of i, folded controlPhase_def]
  from assms(2) have "ctl ?m = ctl ?c"
    by (intro menuPhase_ctl) (simp add: controlPhase_keeps)
  with off(1,2) have m: "\<not> heaterOn (enclosure1 ?m)" "\<not> heaterOn (enclosure2 ?m)"
    by (simp_all add: ctl_def)
  from off(3,4) have d: "ledc1 ?m = 0" "ledc2 ?m = 0"
    by (simp_all add: menuPhase_ledc_zero)
  from m d show "\<not> heaterOn (enclosure1 (loop i s))" and "\<not> heaterOn (enclosure2 (loop i s))"
    and "ledc1 (loop i s) = 0" and "ledc2 (loop i s) = 0"
    by (simp_all add: loop_fields timerPhase_off)
qed

text \<open>
  Claim C3, as the code has it. In every pass the firmware can make, for each zone that is
  in timer mode with \<open>timerSeconds = T\<close> and \<open>timerStart = S\<close>: the pass ends with \<open>heaterOn\<close>
  false exactly when a zone reads 130 degrees or more in the pass, or the whole seconds
  elapsed since \<open>S\<close> on the clock read by the zone's timer check have reached \<open>T\<close>; it
  ends then with duty 0 on the zone's channel. In a pass without overheat the heater of
  a zone in timer mode is therefore never off before the timer has run out.
\<close>

theorem timer_clears_heater_at_expiry_in_pass:
  assumes "reachable s"
  shows "(useTimer (enclosure1 (loop i s)) \<longrightarrow>
            (\<not> heaterOn (enclosure1 (loop i s)) \<longleftrightarrow>
               overheat (readSensors i s) \<or>
               timerSeconds (enclosure1 (loop i s)) \<le>
                 (millisTimer1 i - timerStart (enclosure1 (loop i s))) div 1000) \<and>
            (\<not> heaterOn (enclosure1 (loop i s)) \<longrightarrow> ledc1 (loop i s) = 0)) \<and>
         (useTimer (enclosure2 (loop i s)) \<longrightarrow>
            (\<not> heaterOn (enclosure2 (loop i s)) \<longleftrightarrow>
               overheat (readSensors i s) \<or>
               timerSeconds (enclosure2 (loop i s)) \<le>
                 (millisTimer2 i - timerStart (enclosure2 (loop i s))) div 1000) \<and>
            (\<not> heaterOn (enclosure2 (loop i s)) \<longrightarrow> ledc2 (loop i s) = 0))"
proof (cases "overheat (readSensors i s)")
  case True
  from assms have "\<not> tuning s" "\<not> armScreen s"
    by (simp_all add: reachable_inv)
  from overheat_pass_off [OF this True] True show ?thesis
    by simp
next
  case False
  let ?c = "controlPhase i s"
  let ?m = "menuPhase i ?c"
  let ?t = "timerCheck1 i ?m"
  from assms have inv: "\<not> tuning s" "\<not> armScreen s"
    by (simp_all add: reachable_inv)
  then have nt: "\<not> tuning (readSensors i s)"
    by (simp add: readSensors_keeps)
  have c: "heaterOn (enclosure1 ?c)" "heaterOn (enclosure2 ?c)"
    unfolding controlPhase_def by (rule pidControl_normal [OF nt False])+
  from inv have "\<not> armScreen ?c"
    by (simp add: controlPhase_keeps)
  then have "ctl ?m = ctl ?c"
    by (rule menuPhase_ctl)
  with c have on: "heaterOn (enclosure1 ?m)" "heaterOn (enclosure2 ?m)"
    by (simp_all add: ctl_def)
  have e1: "enclosure1 (loop i s) = enclosure1 ?t" "ledc1 (loop i s) = ledc1 ?t"
    by (simp_all add: loop_fields timerPhase_def timerCheck2_other)
  have e2: "enclosure2 (loop i s) = enclosure2 (timerCheck2 i ?t)"
      "ledc2 (loop i s) = ledc2 (timerCheck2 i ?t)"
    by (simp_all add: loop_fields timerPhase_def)
  have t2: "enclosure2 ?t = enclosure2 ?m"
    by (simp add: timerCheck1_other)
  note r1 = rest_fields [OF timerCheck1_rest, of i ?m]
  note r2 = rest_fields [OF timerCheck2_rest, of i ?t]
  have z1: "(\<not> heaterOn (enclosure1 (loop i s)) \<longleftrightarrow>
        timerSeconds (enclosure1 (loop i s)) \<le>
          (millisTimer1 i - timerStart (enclosure1 (loop i s))) div 1000) \<and>
      (\<not> heaterOn (enclosure1 (loop i s)) \<longrightarrow> ledc1 (loop i s) = 0)"
    if u: "useTimer (enclosure1 (loop i s))"
  proof -
    from u have "useTimer (enclosure1 ?m)"
      by (simp add: e1 r1)
    from timerCheck1_on [OF on(1) this, of i] show ?thesis
      by (simp add: e1 r1)
  qed
  have z2: "(\<not> heaterOn (enclosure2 (loop i s)) \<longleftrightarrow>
        timerSeconds (enclosure2 (loop i s)) \<le>
          (millisTimer2 i - timerStart (enclosure2 (loop i s))) div 1000) \<and>
      (\<not> heaterOn (enclosure2 (loop i s)) \<longrightarrow> ledc2 (loop i s) = 0)"
    if u: "useTimer (enclosure2 (loop i s))"
  proof -
    from u have ut: "useTimer (enclosure2 ?t)"
      by (simp add: e2 r2)
    from on(2) have "heaterOn (enclosure2 ?t)"
      by (simp add: t2)
    from timerCheck2_on [OF this ut, of i] show ?thesis
      by (simp add: e2 r2)
  qed
  from z1 z2 False show ?thesis
    by blast
qed

theorem timer_clears_heater_at_expiry_in_pass_witness:
  "reachable (run armRun (setupState bootDefault)) \<and>
   \<not> overheat (readSensors (atTime 1200000 (turned 4 quiet))
        (run armRun (setupState bootDefault))) \<and>
   useTimer (enclosure1 (loop (atTime 1200000 (turned 4 quiet))
        (run armRun (setupState bootDefault)))) \<and>
   timerSeconds (enclosure1 (loop (atTime 1200000 (turned 4 quiet))
        (run armRun (setupState bootDefault)))) \<le>
     (millisTimer1 (atTime 1200000 (turned 4 quiet)) -
      timerStart (enclosure1 (loop (atTime 1200000 (turned 4 quiet))
        (run armRun (setupState bootDefault))))) div 1000 \<and>
   \<not> heaterOn (enclosure1 (loop (atTime 1200000 (turned 4 quiet))
        (run armRun (setupState bootDefault)))) \<and>
   ledc1 (loop (atTime 1200000 (turned 4 quiet)) (run armRun (setupState bootDefault))) = 0"
proof -
  let ?s = "run armRun (setupState bootDefault)" and ?i = "atTime 1200000 (turned 4 quiet)"
  have r: "reachable ?s"
    by (intro reachable_run reachable.boot)
  have o: "\<not> overheat (readSensors ?i ?s)"
    by (simp add: overheat_def readSensors_zone ingest_def atTime_def turned_def quiet_def)
  have u: "useTimer (enclosure1 (loop ?i ?s))"
    by (simp add: armRun_def pass_defs input_defs)
  have e: "timerSeconds (enclosure1 (loop ?i ?s)) \<le>
      (millisTimer1 ?i - timerStart (enclosure1 (loop ?i ?s))) div 1000"
    by (simp add: armRun_def pass_defs input_defs)
  from timer_clears_heater_at_expiry_in_pass [OF r, of ?i] r o u e show ?thesis
    by simp
qed

text \<open>The counterexample to claim C3: enclosure 1 armed with 1200 seconds by \<open>armRun\<close>, heater
  on. A pass 600 seconds after \<open>timerStart\<close> reads 135 degrees: it ends with \<open>heaterOn\<close>
  false although only 600 of the 1200 seconds have elapsed.\<close>

theorem heater_off_before_expiry_on_overheat:
  "heaterOn (enclosure1 (run armRun (setupState bootDefault))) \<and>
   useTimer (enclosure1
     (run (armRun @ [atTime 600000 (overheated (turned 4 quiet))]) (setupState bootDefault))) \<and>
   timerSeconds (enclosure1
     (run (armRun @ [atTime 600000 (overheated (turned 4 quiet))]) (setupState bootDefault)))
     = 1200 \<and>
   (600000 - timerStart (enclosure1
     (run (armRun @ [atTime 600000 (overheated (turned 4 quiet))]) (setupState bootDefault))))
     div 1000 = 600 \<and>
   \<not> heaterOn (enclosure1
     (run (armRun @ [atTime 600000 (overheated (turned 4 quiet))]) (setupState bootDefault)))"
  by (simp add: armRun_def pass_defs input_defs)

section \<open>The 30-second sequence across passes\<close>

text \<open>
  Claim C5 against the code. After \<open>armRun\<close> enclosure 1 counts down from 1200 seconds
  while enclosure 2 is still in timer mode with \<open>timerSeconds = 0\<close>, as at boot. In the pass
  whose first timer check reads the clock at 1180 s (\<open>remaining\<close> = 20) the check of
  enclosure 1 sounds the sequence and sets \<open>buzzerLocked\<close>; the check of enclosure 2,
  2.7 s later and with its timer complete, clears the flag in the same pass. The next
  pass, whose first timer check reads 1183.3 s (\<open>remaining\<close> = 17), sounds the sequence
  a second time in the same countdown.
\<close>

theorem countdown_sequence_repeats:
  "remainingSeconds 1180000 (enclosure1 (run armRun (setupState bootDefault))) = 20 \<and>
   remainingSeconds 1183300 (enclosure1 (run armRun (setupState bootDefault))) = 17 \<and>
   trace (run (armRun @ [(atTime 1180000 (turned 4 quiet))\<lparr>millisTimer2 := 1182700\<rparr>])
            (setupState bootDefault)) =
     trace (run armRun (setupState bootDefault)) @ countdownSequence @ [Delay 500] \<and>
   \<not> buzzerLocked
       (run (armRun @ [(atTime 1180000 (turned 4 quiet))\<lparr>millisTimer2 := 1182700\<rparr>])
            (setupState bootDefault)) \<and>
   trace (run (armRun @ [(atTime 1180000 (turned 4 quiet))\<lparr>millisTimer2 := 1182700\<rparr>,
                         (atTime 1183300 (turned 4 quiet))\<lparr>millisTimer2 := 1186000\<rparr>])
            (setupState bootDefault)) =
     trace (run armRun (setupState bootDefault)) @ countdownSequence @ [Delay 500] @
       countdownSequence @ [Delay 500]"
  by (simp add: armRun_def pass_defs input_defs)

section \<open>The high-humidity interstitial\<close>

lemma toFloat_exact: "\<bar>n\<bar> < 2 ^ 24 \<Longrightarrow> toFloat n = real_of_int n"
  by (simp add: toFloat_def)

lemma toFloat_rounds: "toFloat 16777219 = 16777220"
  by (simp add: toFloat_def Let_def compute_bitlen)

lemma count_concat_replicate:
  "count_list (concat (replicate n xs)) x = n * count_list xs x"
  by (induction n) simp_all

lemma interstitials_emit:
  "interstitials n (emit es s) =
     interstitials n s + count_list es (SendBuffer (HighHumidityFrame n))"
  by (simp add: interstitials_def emit_def)

lemma interstitials_update [simp]:
  "interstitials n (s\<lparr>encoderButtonPressed := b\<rparr>) = interstitials n s"
  "interstitials n (s\<lparr>screenIndex := k\<rparr>) = interstitials n s"
  "interstitials n (eepromPut a v s) = interstitials n s"
  "interstitials n (s\<lparr>enclosure1 := z\<rparr>) = interstitials n s"
  "interstitials n (s\<lparr>enclosure2 := z\<rparr>) = interstitials n s"
  "interstitials n (s\<lparr>humidityAlarm1 := b\<rparr>) = interstitials n s"
  "interstitials n (s\<lparr>humidityAlarm2 := b\<rparr>) = interstitials n s"
  by (simp_all add: interstitials_def eepromPut_def)

lemma displayZoneEvents_count:
  "count_list (displayZoneEvents z r s) (SendBuffer (HighHumidityFrame n)) =
     (if highHumidity z (case r of Some h \<Rightarrow> h | None \<Rightarrow> 0) s \<and> name z = n then 1 else 0)"
  by (simp add: displayZoneEvents_def humidityInterstitial_def Let_def)

lemma displayZoneEvents_screen:
  "displayZoneEvents z r (s\<lparr>screenIndex := k\<rparr>) = displayZoneEvents z r s"
  by (simp add: displayZoneEvents_def highHumidity_def)

lemma pressMainMenu_shown: "interstitials n (pressMainMenu s) = interstitials n s"
  by (simp add: pressMainMenu_def interstitials_def)

lemma pressFilament1_shown: "interstitials n (pressFilament1 s) = interstitials n s"
  by (simp add: pressFilament1_def interstitials_def eepromPut_def Let_def)

lemma pressFilament2_shown: "interstitials n (pressFilament2 s) = interstitials n s"
  by (simp add: pressFilament2_def interstitials_def eepromPut_def Let_def)

lemma pressSettings_shown: "interstitials n (pressSettings s) = interstitials n s"
  by (simp add: pressSettings_def interstitials_def emit_def)

lemma pressEnclosure1_shown:
  "interstitials n (pressEnclosure1 i s) =
     interstitials n s +
     (if lastEncoderPos s smod 6 = 3 \<and>
         highHumidity (enclosure1 s) (case humidityRead i of Some h \<Rightarrow> h | None \<Rightarrow> 0) s \<and>
         name (enclosure1 s) = n
      then 1 else 0)"
  by (simp add: pressEnclosure1_def Let_def displayZone_def interstitials_emit
      displayZoneEvents_count displayZoneEvents_screen)

lemma pressEnclosure2_shown:
  "interstitials n (pressEnclosure2 i s) =
     interstitials n s +
     (if lastEncoderPos s smod 6 = 3 \<and>
         highHumidity (enclosure2 s) (case humidityRead i of Some h \<Rightarrow> h | None \<Rightarrow> 0) s \<and>
         name (enclosure2 s) = n
      then 1 else 0)"
  by (simp add: pressEnclosure2_def Let_def displayZone_def interstitials_emit
      displayZoneEvents_count displayZoneEvents_screen)

lemma emit_fields [simp]:
  "screenIndex (emit es s) = screenIndex s"
  "lastEncoderPos (emit es s) = lastEncoderPos s"
  "enclosure1 (emit es s) = enclosure1 s"
  "enclosure2 (emit es s) = enclosure2 s"
  "highHumidity z h (emit es s) = highHumidity z h s"
  "highHumidity z h (s\<lparr>encoderButtonPressed := b\<rparr>) = highHumidity z h s"
  by (simp_all add: emit_def highHumidity_def)

lemma encoderButton_shown:
  "interstitials n (encoderButton i s) =
     interstitials n s +
     (if encoderSwLow i \<and> \<not> encoderButtonPressed s \<and> screenIndex s = 10 \<and>
         lastEncoderPos s smod 6 = 3 \<and>
         highHumidity (enclosure1 s) (case humidityRead i of Some h \<Rightarrow> h | None \<Rightarrow> 0) s \<and>
         name (enclosure1 s) = n
      then 1 else 0) +
     (if encoderSwLow i \<and> \<not> encoderButtonPressed s \<and> screenIndex s = 11 \<and>
         lastEncoderPos s smod 6 = 3 \<and>
         highHumidity (enclosure2 s) (case humidityRead i of Some h \<Rightarrow> h | None \<Rightarrow> 0) s \<and>
         name (enclosure2 s) = n
      then 1 else 0)"
  by (simp add: encoderButton_def Let_def interstitials_emit pressMainMenu_shown
      pressFilament1_shown pressFilament2_shown pressSettings_shown pressEnclosure1_shown
      pressEnclosure2_shown)

lemma control_shown:
  "interstitials n (readSensors i s) = interstitials n s"
  "interstitials n (pidControl i s) = interstitials n s"
  "interstitials n (controlPhase i s) = interstitials n s"
proof -
  show a: "interstitials n (readSensors i s) = interstitials n s" for s
    by (simp add: interstitials_def readSensors_def)
  show b: "interstitials n (pidControl i s) = interstitials n s" for s
    by (simp add: interstitials_def pidControl_def overheatShutdown_def pidStep_def emit_def
        Let_def count_concat_replicate overheatFlash_def overheatBuzz_def)
  show "interstitials n (controlPhase i s) = interstitials n s"
    by (simp add: controlPhase_def a b)
qed

lemma menu_shown:
  "interstitials n (encoderNav i s) = interstitials n s"
  "interstitials n (backButton i s) = interstitials n s"
  "interstitials n (screenSwitch i s) = interstitials n s"
  by (simp_all add: interstitials_def encoderNav_def backButton_def screenSwitch_def
      eepromPut_def Let_def)

lemma timerCheck_silent_frames:
  "count_list (snd (timerCheck now st)) (SendBuffer f) = 0"
  by (cases st) (simp add: timerCheck_def Let_def fiveMinuteBeep_def countdownSequence_def
      shortBeep_def count_concat_replicate)

lemma timer_shown:
  "interstitials n (timerCheck1 i s) = interstitials n s"
  "interstitials n (timerCheck2 i s) = interstitials n s"
proof -
  show "interstitials n (timerCheck1 i s) = interstitials n s"
    using timerCheck_silent_frames
      [of "millisTimer1 i" "(enclosure1 s, ledc1 s, buzzerLocked s)" "HighHumidityFrame n"]
    by (auto simp add: timerCheck1_def interstitials_def emit_def split: prod.splits)
  show "interstitials n (timerCheck2 i s) = interstitials n s"
    using timerCheck_silent_frames
      [of "millisTimer2 i" "(enclosure2 s, ledc2 s, buzzerLocked s)" "HighHumidityFrame n"]
    by (auto simp add: timerCheck2_def interstitials_def emit_def split: prod.splits)
qed

lemma loop_shown:
  "interstitials n (loop i s) =
     interstitials n (encoderButton i (encoderNav i (controlPhase i s)))"
  by (simp add: loop_def updateScreen_def timerPhase_def menuPhase_def interstitials_emit
      timer_shown menu_shown)

lemma before_button:
  "encoderButtonPressed (encoderNav i (controlPhase i s)) = encoderButtonPressed s"
  "screenIndex (encoderNav i (controlPhase i s)) = screenIndex s"
  "lastEncoderPos (encoderNav i (controlPhase i s)) = encoderRead i sdiv 4"
  "humidityLimit1 (encoderNav i (controlPhase i s)) = humidityLimit1 s"
  "humidityLimit2 (encoderNav i (controlPhase i s)) = humidityLimit2 s"
  "humidityAlarm1 (encoderNav i (controlPhase i s)) = humidityAlarm1 s"
  "humidityAlarm2 (encoderNav i (controlPhase i s)) = humidityAlarm2 s"
  "name (enclosure1 (encoderNav i (controlPhase i s))) = name (enclosure1 s)"
  "name (enclosure2 (encoderNav i (controlPhase i s))) = name (enclosure2 s)"
proof -
  have c: "encoderButtonPressed (controlPhase i s) = encoderButtonPressed s"
      "humidityLimit1 (controlPhase i s) = humidityLimit1 s"
      "humidityLimit2 (controlPhase i s) = humidityLimit2 s"
      "humidityAlarm1 (controlPhase i s) = humidityAlarm1 s"
      "humidityAlarm2 (controlPhase i s) = humidityAlarm2 s"
      "name (enclosure1 (controlPhase i s)) = name (enclosure1 s)"
      "name (enclosure2 (controlPhase i s)) = name (enclosure2 s)"
    by (simp_all add: controlPhase_def pidControl_def overheatShutdown_def pidStep_def
        readSensors_def emit_def Let_def)
  have n: "encoderButtonPressed (encoderNav i t) = encoderButtonPressed t"
      "humidityLimit1 (encoderNav i t) = humidityLimit1 t"
      "humidityLimit2 (encoderNav i t) = humidityLimit2 t"
      "humidityAlarm1 (encoderNav i t) = humidityAlarm1 t"
      "humidityAlarm2 (encoderNav i t) = humidityAlarm2 t"
      "enclosure1 (encoderNav i t) = enclosure1 t"
      "enclosure2 (encoderNav i t) = enclosure2 t" for t
    by (simp_all add: encoderNav_def Let_def)
  show "encoderButtonPressed (encoderNav i (controlPhase i s)) = encoderButtonPressed s"
    "screenIndex (encoderNav i (controlPhase i s)) = screenIndex s"
    "lastEncoderPos (encoderNav i (controlPhase i s)) = encoderRead i sdiv 4"
    "humidityLimit1 (encoderNav i (controlPhase i s)) = humidityLimit1 s"
    "humidityLimit2 (encoderNav i (controlPhase i s)) = humidityLimit2 s"
    "humidityAlarm1 (encoderNav i (controlPhase i s)) = humidityAlarm1 s"
    "humidityAlarm2 (encoderNav i (controlPhase i s)) = humidityAlarm2 s"
    "name (enclosure1 (encoderNav i (controlPhase i s))) = name (enclosure1 s)"
    "name (enclosure2 (encoderNav i (controlPhase i s))) = name (enclosure2 s)"
    by (simp_all add: c n encoderNav_screen encoderNav_value controlPhase_menu_inputs)
qed

text \<open>
  Claim C9, as the code has it. For each enclosure: in a pass the firmware can make, the
  blocking "HIGH HUMIDITY!" interstitial of the enclosure is sent to the display (once)
  if and only if "View Temp" is pressed in the enclosure's submenu in that pass, the
  humidity that \<open>displayZone\<close> then measures (0 when the sensor does not answer) exceeds
  the enclosure's limit, converted to \<open>float\<close> for the comparison, and the enclosure's
  alarm flag is enabled. Whatever the zone and the state, \<open>displayZone\<close> adds its events
  to the trace, and the buzzer pin is not among them.
\<close>

theorem humidity_interstitial_on_view_temp:
  assumes "reachable s"
  shows "interstitials ''3D Enclosure 1'' (loop i s) =
           interstitials ''3D Enclosure 1'' s +
           (if viewTemp 10 i s \<and>
               (case humidityRead i of Some h \<Rightarrow> h | None \<Rightarrow> 0) > toFloat (humidityLimit1 s) \<and>
               humidityAlarm1 s
            then 1 else 0) \<and>
         interstitials ''3D Enclosure 2'' (loop i s) =
           interstitials ''3D Enclosure 2'' s +
           (if viewTemp 11 i s \<and>
               (case humidityRead i of Some h \<Rightarrow> h | None \<Rightarrow> 0) > toFloat (humidityLimit2 s) \<and>
               humidityAlarm2 s
            then 1 else 0) \<and>
         trace (displayZone z r t) = trace t @ displayZoneEvents z r t \<and>
         \<not> buzzerUsed (displayZoneEvents z r t)"
proof -
  let ?b = "encoderNav i (controlPhase i s)"
  let ?h = "case humidityRead i of Some h \<Rightarrow> h | None \<Rightarrow> 0"
  from assms have n: "name (enclosure1 s) = ''3D Enclosure 1''"
      "name (enclosure2 s) = ''3D Enclosure 2''"
    by (simp_all add: reachable_names)
  have h1: "highHumidity (enclosure1 ?b) ?h ?b \<longleftrightarrow>
      ?h > toFloat (humidityLimit1 s) \<and> humidityAlarm1 s"
    by (simp add: highHumidity_def nameHas_def before_button n)
  have h2: "highHumidity (enclosure2 ?b) ?h ?b \<longleftrightarrow>
      ?h > toFloat (humidityLimit2 s) \<and> humidityAlarm2 s"
    by (simp add: highHumidity_def nameHas_def before_button n)
  have b: "interstitials m ?b = interstitials m s" for m
    by (simp add: menu_shown control_shown)
  have one: "interstitials ''3D Enclosure 1'' (loop i s) =
      interstitials ''3D Enclosure 1'' s +
      (if viewTemp 10 i s \<and> ?h > toFloat (humidityLimit1 s) \<and> humidityAlarm1 s
       then 1 else 0)"
    by (simp add: loop_shown encoderButton_shown b h1 h2 before_button n viewTemp_def)
  have two: "interstitials ''3D Enclosure 2'' (loop i s) =
      interstitials ''3D Enclosure 2'' s +
      (if viewTemp 11 i s \<and> ?h > toFloat (humidityLimit2 s) \<and> humidityAlarm2 s
       then 1 else 0)"
    by (simp add: loop_shown encoderButton_shown b h1 h2 before_button n viewTemp_def)
  have three: "trace (displayZone z r t) = trace t @ displayZoneEvents z r t"
    by (simp add: displayZone_def emit_def)
  have four: "\<not> buzzerUsed (displayZoneEvents z r t)"
    by (simp add: buzzerUsed_def displayZoneEvents_def humidityInterstitial_def Let_def)
  from one two three four show ?thesis
    by (simp only: simp_thms)
qed


theorem humidity_interstitial_on_view_temp_witness:
  "reachable (run toViewTemp (setupState bootHumid)) \<and>
   viewTemp 10 (atTime 3000 (press (turned 12 (humid quiet))))
     (run toViewTemp (setupState bootHumid)) \<and>
   humidityRead (atTime 3000 (press (turned 12 (humid quiet)))) = Some 70 \<and>
   humidityLimit1 (run toViewTemp (setupState bootHumid)) = 65 \<and>
   humidityAlarm1 (run toViewTemp (setupState bootHumid)) \<and>
   interstitials ''3D Enclosure 1''
     (loop (atTime 3000 (press (turned 12 (humid quiet))))
        (run toViewTemp (setupState bootHumid))) =
     interstitials ''3D Enclosure 1'' (run toViewTemp (setupState bootHumid)) + 1 \<and>
   reachable (run toViewTemp (setupState bootDefault)) \<and>
   viewTemp 10 (atTime 3000 (press (turned 12 (humid quiet))))
     (run toViewTemp (setupState bootDefault)) \<and>
   \<not> humidityAlarm1 (run toViewTemp (setupState bootDefault)) \<and>
   interstitials ''3D Enclosure 1''
     (loop (atTime 3000 (press (turned 12 (humid quiet))))
        (run toViewTemp (setupState bootDefault))) =
     interstitials ''3D Enclosure 1'' (run toViewTemp (setupState bootDefault))"
proof -
  let ?on = "run toViewTemp (setupState bootHumid)"
  let ?off = "run toViewTemp (setupState bootDefault)"
  let ?i = "atTime 3000 (press (turned 12 (humid quiet)))"
  have r: "reachable ?on" "reachable ?off"
    by (intro reachable_run reachable.boot)+
  have v: "viewTemp 10 ?i ?on" "viewTemp 10 ?i ?off"
    by (simp_all add: viewTemp_def toViewTemp_def pass_defs input_defs)
  have h: "humidityRead ?i = Some 70"
    by (simp add: input_defs)
  have l: "humidityLimit1 ?on = 65" "humidityAlarm1 ?on" "\<not> humidityAlarm1 ?off"
    by (simp_all add: toViewTemp_def pass_defs input_defs)
  from humidity_interstitial_on_view_temp [OF r(1), of ?i]
    humidity_interstitial_on_view_temp [OF r(2), of ?i] r v h l
  show ?thesis
    by (simp add: toFloat_def)
qed

text \<open>The counterexample to claim C9: the alarms of enclosure 1 and of filament box 1 are
  enabled with limit 65 and the humidity sensor answers 70 throughout. The submenu of
  filament box 1 is opened and stays open for two more passes: no high-humidity
  interstitial is sent to the display in any of the passes.\<close>

theorem high_humidity_not_shown:
  "list_all (\<lambda>i. humidityRead i = Some 70) toFilament1 \<and>
   humidityLimitF1 (run toFilament1 (setupState bootHumid)) = 65 \<and>
   humidityAlarmF1 (run toFilament1 (setupState bootHumid)) \<and>
   humidityLimit1 (run toFilament1 (setupState bootHumid)) = 65 \<and>
   humidityAlarm1 (run toFilament1 (setupState bootHumid)) \<and>
   screenIndex (run toFilament1 (setupState bootHumid)) = 12 \<and>
   \<not> list_ex isInterstitial (trace (run toFilament1 (setupState bootHumid)))"
  by (simp add: toFilament1_def isInterstitial_def pass_defs input_defs)

end
